theory Spec2Isabelle
  imports Complex_Main
begin

section \<open>The order-placement bot of src/bot.js\<close>

text \<open>
  The bot is one sequential thread of control: every \<open>await\<close> finishes before the next
  statement runs. Everything it does goes through collaborators it imports (the RPC
  connection, the OpenBook client, the SPL token helpers, the clock). The model makes
  them an explicit environment \<open>env\<close>: each collaborator is a function of the calls made so
  far (the \<open>trace\<close>), so a collaborator may answer the same question differently at
  different moments, as a live ledger does. The program's own state is the module-level
  variable \<open>MARKET_ADDRESS\<close>; the trace of collaborator calls and the retry block's console
  lines are carried along as the observable behaviour.
\<close>

subsection \<open>Data\<close>

text \<open>A \<open>PublicKey\<close>, by its base58 text; \<open>equals\<close> on keys is equality of the texts.\<close>

type_synonym address = string

type_synonym signature = string

text \<open>
  A JavaScript number that is only handed on (price, size), never computed with. The
  literals \<open>0.01\<close> and \<open>100\<close> of the bot stand for themselves.
\<close>

type_synonym number = rat

text \<open>
  A thrown \<open>Error\<close>, by its message. Every \<open>catch\<close> block of the bot reads
  \<open>err.message\<close>, so what the collaborators throw is taken to be an \<open>Error\<close> object.
\<close>

datatype error = Error string

text \<open>What \<open>Market.load\<close> returns, as far as the bot reads it.\<close>

record market =
  marketPubkey :: address
  baseMint :: address
  quoteMint :: address

text \<open>One entry of \<open>getProgramAccounts\<close>: \<open>{pubkey, account: {data}}\<close>.\<close>

record programAccount =
  pubkey :: address
  dataLength :: nat

text \<open>What \<open>getAccountInfo\<close> returns when the account exists (\<open>null\<close> is \<open>None\<close>).\<close>

record accountInfo =
  infoDataLength :: nat

text \<open>
  The instruction built by \<open>createAssociatedTokenAccountInstruction(payer, associatedToken,
  owner, mint, programId)\<close>; a \<open>Transaction\<close> is the list of its instructions.
\<close>

datatype instruction =
  CreateAssociatedTokenAccount address address address address address

type_synonym transaction = "instruction list"

text \<open>The object literal handed to \<open>market.placeOrder\<close>.\<close>

record orderArgs =
  owner :: address
  payer :: address
  side :: string
  price :: number
  orderSize :: number
  orderType :: string
  clientOrderId :: nat
  selfTradeBehavior :: string
  expiryTimestamp :: nat

text \<open>
  Calls to the collaborators, with the arguments the bot chooses: the scan of the accounts
  of a program, with the \<open>dataSize\<close> filter if there is one; \<open>Market.load\<close> of an
  address under a program; the account lookup; the submission of a transaction with its
  signers; a reading of the clock; \<open>market.placeOrder\<close>; the balance query; a pacing delay
  in milliseconds.
\<close>

datatype call =
    GetProgramAccounts address "nat option"
  | MarketLoad address address
  | GetAccountInfo address
  | SendAndConfirmTransaction transaction "address list"
  | DateNow
  | PlaceOrder market orderArgs
  | GetBalance address
  | SetTimeout nat

text \<open>
  The console lines of the retry blocks of \<open>buySol\<close> and \<open>sellSol\<close>, tagged with the side:
  the opening line, the order-sent line with the signature, the line
  \<open>[Retry i+1/retries] ... Error: message\<close>, and the all-retries-failed line. All other
  console output is progress reporting and is left out.
\<close>

datatype logLine =
    Attempting string
  | OrderSent string signature
  | RetryError string nat nat string
  | AllRetriesFailed string

record state =
  MARKET_ADDRESS :: "address option"
  trace :: "call list"
  console :: "logLine list"

text \<open>
  The collaborators. Each fallible one returns \<open>Inl\<close> of the error it throws. The first
  argument is the trace at the moment of the call. \<open>walletPublicKey\<close> is
  \<open>wallet.publicKey\<close>, which also stands for the wallet as a signer.
  \<open>getAssociatedTokenAddressSync\<close> derives the address from the mint and the owner
  alone, in this order of arguments, and makes no call.
\<close>

record env =
  walletPublicKey :: address
  getProgramAccounts :: "call list \<Rightarrow> address \<Rightarrow> nat option \<Rightarrow> error + programAccount list"
  marketLoad :: "call list \<Rightarrow> address \<Rightarrow> address \<Rightarrow> error + market"
  getAccountInfo :: "call list \<Rightarrow> address \<Rightarrow> error + accountInfo option"
  getAssociatedTokenAddressSync :: "address \<Rightarrow> address \<Rightarrow> address"
  sendAndConfirmTransaction :: "call list \<Rightarrow> transaction \<Rightarrow> address list \<Rightarrow> error + signature"
  dateNow :: "call list \<Rightarrow> nat"
  placeOrder :: "call list \<Rightarrow> market \<Rightarrow> orderArgs \<Rightarrow> error + signature"
  getBalance :: "call list \<Rightarrow> address \<Rightarrow> error + nat"

subsection \<open>Constants\<close>

definition PROGRAM_ID :: address where
  "PROGRAM_ID = ''opnb2LAfJYbRMAHHvqjCwQxanZn7ReEHp1k81EohpZb''"

definition BASE_MINT :: address where
  "BASE_MINT = ''So11111111111111111111111111111111111111112''"

definition QUOTE_MINT :: address where
  "QUOTE_MINT = ''EPjFWdd5AufqSSqeM2qN1xzybapC8G4wEGGkZwyTDt1v''"

text \<open>The SPL token program's id, a constant of the imported library.\<close>

definition TOKEN_PROGRAM_ID :: address where
  "TOKEN_PROGRAM_ID = ''TokenkegQfeZyiNwAJbNbGKPFXCWuBvf9Ss623VQ5DA''"

definition possibleSizes :: "nat list" where
  "possibleSizes = [760, 776, 808, 824, 856]"

text \<open>The state when the module has been loaded: \<open>let MARKET_ADDRESS = null\<close>.\<close>

definition initialState :: state where
  "initialState = \<lparr>MARKET_ADDRESS = None, trace = [], console = []\<rparr>"

definition recordCall :: "call \<Rightarrow> state \<Rightarrow> state" where
  "recordCall c st = st\<lparr>trace := trace st @ [c]\<rparr>"

definition consoleLine :: "logLine \<Rightarrow> state \<Rightarrow> state" where
  "consoleLine l st = st\<lparr>console := console st @ [l]\<rparr>"

subsection \<open>findMarkets\<close>

text \<open>
  The loop over \<open>possibleSizes\<close>: one filtered scan per size; a scan that throws is caught
  and adds nothing.
\<close>

fun scanSizes ::
  "env \<Rightarrow> nat list \<Rightarrow> programAccount list \<Rightarrow> state \<Rightarrow> programAccount list \<times> state" where
  "scanSizes env [] allMarkets st = (allMarkets, st)"
| "scanSizes env (sz # sizes) allMarkets st =
     (case getProgramAccounts env (trace st) PROGRAM_ID (Some sz) of
        Inr programAccounts \<Rightarrow>
          scanSizes env sizes (allMarkets @ programAccounts)
            (recordCall (GetProgramAccounts PROGRAM_ID (Some sz)) st)
      | Inl err \<Rightarrow>
          scanSizes env sizes allMarkets (recordCall (GetProgramAccounts PROGRAM_ID (Some sz)) st))"

definition marketNotFound :: error where
  "marketNotFound = Error
     ''SOL/USDC market not found in first 20 accounts. You may need to manually specify the market address.''"

text \<open>
  The loop \<open>for (let i = 0; i < Math.min(allMarkets.length, 20); i++)\<close> and the
  \<open>throw\<close> after it. A \<open>Market.load\<close> that throws is caught and the loop continues.
\<close>

function checkAccounts ::
  "env \<Rightarrow> programAccount list \<Rightarrow> nat \<Rightarrow> state \<Rightarrow> (error + address) \<times> state" where
  "checkAccounts env allMarkets i st =
     (if i < min (length allMarkets) 20 then
        (let account = allMarkets ! i;
             st1 = recordCall (MarketLoad (pubkey account) PROGRAM_ID) st
         in case marketLoad env (trace st) (pubkey account) PROGRAM_ID of
              Inr m \<Rightarrow>
                if baseMint m = BASE_MINT \<and> quoteMint m = QUOTE_MINT then
                  (Inr (pubkey account), st1)
                else if baseMint m = QUOTE_MINT \<and> quoteMint m = BASE_MINT then
                  (Inr (pubkey account), st1)
                else checkAccounts env allMarkets (i + 1) st1
            | Inl err \<Rightarrow> checkAccounts env allMarkets (i + 1) st1)
      else (Inl marketNotFound, st))"
  by pat_completeness auto
termination
  by (relation "measure (\<lambda>(env, allMarkets, i, st). min (length allMarkets) 20 - i)") auto

declare checkAccounts.simps [simp del]

text \<open>
  The outer \<open>try\<close>/\<open>catch\<close> of \<open>findMarkets\<close> logs and rethrows, so an error passes
  through unchanged.
\<close>

definition findMarkets :: "env \<Rightarrow> state \<Rightarrow> (error + address) \<times> state" where
  "findMarkets env st =
     (case scanSizes env possibleSizes [] st of
        (allMarkets, st1) \<Rightarrow>
          if length allMarkets = 0 then
            (case getProgramAccounts env (trace st1) PROGRAM_ID None of
               Inl err \<Rightarrow> (Inl err, recordCall (GetProgramAccounts PROGRAM_ID None) st1)
             | Inr allMarkets' \<Rightarrow>
                 checkAccounts env allMarkets' 0 (recordCall (GetProgramAccounts PROGRAM_ID None) st1))
          else checkAccounts env allMarkets 0 st1)"

subsection \<open>loadMarket\<close>

definition marketAccountNotFound :: error where
  "marketAccountNotFound = Error ''Market account not found on chain!''"

definition loadMarket :: "env \<Rightarrow> state \<Rightarrow> (error + market) \<times> state" where
  "loadMarket env st =
     (case (case MARKET_ADDRESS st of
              None \<Rightarrow>
                (case findMarkets env st of
                   (Inl err, st1) \<Rightarrow> (Inl err, st1)
                 | (Inr found, st1) \<Rightarrow> (Inr found, st1\<lparr>MARKET_ADDRESS := Some found\<rparr>))
            | Some a \<Rightarrow> (Inr a, st)) of
        (Inl err, st1) \<Rightarrow> (Inl err, st1)
      | (Inr a, st1) \<Rightarrow>
          (let st2 = recordCall (GetAccountInfo a) st1
           in case getAccountInfo env (trace st1) a of
                Inl err \<Rightarrow> (Inl err, st2)
              | Inr None \<Rightarrow> (Inl marketAccountNotFound, st2)
              | Inr (Some info) \<Rightarrow>
                  (marketLoad env (trace st2) a PROGRAM_ID, recordCall (MarketLoad a PROGRAM_ID) st2)))"

subsection \<open>getOrCreateAssociatedTokenAccount\<close>

definition getOrCreateAssociatedTokenAccount ::
  "env \<Rightarrow> address \<Rightarrow> address \<Rightarrow> state \<Rightarrow> (error + address) \<times> state" where
  "getOrCreateAssociatedTokenAccount env owner' mint st =
     (let associatedTokenAddress = getAssociatedTokenAddressSync env mint owner';
          st1 = recordCall (GetAccountInfo associatedTokenAddress) st
      in case getAccountInfo env (trace st) associatedTokenAddress of
           Inl err \<Rightarrow> (Inl err, st1)
         | Inr (Some info) \<Rightarrow> (Inr associatedTokenAddress, st1)
         | Inr None \<Rightarrow>
             (let tx = [CreateAssociatedTokenAccount owner' associatedTokenAddress owner' mint
                          TOKEN_PROGRAM_ID];
                  signers = [walletPublicKey env];
                  st2 = recordCall (SendAndConfirmTransaction tx signers) st1
              in case sendAndConfirmTransaction env (trace st1) tx signers of
                   Inl err \<Rightarrow> (Inl err, st2)
                 | Inr sig \<Rightarrow> (Inr associatedTokenAddress, st2)))"

subsection \<open>placeLimitOrder\<close>

text \<open>
  \<open>Date.now()\<close> is read twice, first for \<open>clientOrderId\<close>, then for
  \<open>expiryTimestamp\<close>; it is a whole number of milliseconds, so
  \<open>Math.floor(Date.now() / 1000)\<close> is \<open>div 1000\<close>. The \<open>catch\<close> logs and rethrows.
\<close>

definition placeLimitOrder ::
  "env \<Rightarrow> market \<Rightarrow> string \<Rightarrow> number \<Rightarrow> number \<Rightarrow> state \<Rightarrow> (error + signature) \<times> state" where
  "placeLimitOrder env m side' price' size' st =
     (let payerMint = (if side' = ''buy'' then QUOTE_MINT else BASE_MINT)
      in case getOrCreateAssociatedTokenAccount env (walletPublicKey env) payerMint st of
           (Inl err, st1) \<Rightarrow> (Inl err, st1)
         | (Inr payer', st1) \<Rightarrow>
             (let now1 = dateNow env (trace st1);
                  st2 = recordCall DateNow st1;
                  now2 = dateNow env (trace st2);
                  st3 = recordCall DateNow st2;
                  args = \<lparr>owner = walletPublicKey env,
                          payer = payer',
                          side = side',
                          price = price',
                          orderSize = size',
                          orderType = ''limit'',
                          clientOrderId = now1,
                          selfTradeBehavior = ''decrementTake'',
                          expiryTimestamp = now2 div 1000 + 60\<rparr>
              in (placeOrder env (trace st3) m args, recordCall (PlaceOrder m args) st3)))"

subsection \<open>buySol and sellSol\<close>

text \<open>The body of the \<open>try\<close> block of both retry loops: load the market, place the order.\<close>

definition attempt ::
  "env \<Rightarrow> string \<Rightarrow> number \<Rightarrow> number \<Rightarrow> state \<Rightarrow> (error + signature) \<times> state" where
  "attempt env side' price' size' st =
     (case loadMarket env st of
        (Inl err, st1) \<Rightarrow> (Inl err, st1)
      | (Inr m, st1) \<Rightarrow> placeLimitOrder env m side' price' size' st1)"

text \<open>
  The loop \<open>for (let i = 0; i < retries; i++)\<close>, which \<open>buySol\<close> and \<open>sellSol\<close> share
  word for word but for the side. The result is the function's completion: \<open>Inr ()\<close> is a
  normal return, \<open>Inl\<close> would be an error thrown to the caller.
\<close>

function retryLoop ::
  "env \<Rightarrow> string \<Rightarrow> number \<Rightarrow> number \<Rightarrow> nat \<Rightarrow> nat \<Rightarrow> state \<Rightarrow> (error + unit) \<times> state" where
  "retryLoop env side' price' size' retries i st =
     (if i < retries then
        (case attempt env side' price' size' st of
           (Inr tx, st1) \<Rightarrow> (Inr (), consoleLine (OrderSent side' tx) st1)
         | (Inl (Error message), st1) \<Rightarrow>
             (let st2 = consoleLine (RetryError side' (i + 1) retries message) st1;
                  st3 = (if i = retries - 1 then consoleLine (AllRetriesFailed side') st2
                         else st2)
              in retryLoop env side' price' size' retries (i + 1) st3))
      else (Inr (), st))"
  by pat_completeness auto
termination
  by (relation "measure (\<lambda>(env, side', price', size', retries, i, st). retries - i)") auto

declare retryLoop.simps [simp del]

definition buySol :: "env \<Rightarrow> number \<Rightarrow> number \<Rightarrow> nat \<Rightarrow> state \<Rightarrow> (error + unit) \<times> state" where
  "buySol env price' size' retries st =
     retryLoop env ''buy'' price' size' retries 0 (consoleLine (Attempting ''buy'') st)"

definition sellSol :: "env \<Rightarrow> number \<Rightarrow> number \<Rightarrow> nat \<Rightarrow> state \<Rightarrow> (error + unit) \<times> state" where
  "sellSol env price' size' retries st =
     retryLoop env ''sell'' price' size' retries 0 (consoleLine (Attempting ''sell'') st)"

text \<open>The retry ceiling both functions default to, and that \<open>startBot\<close> leaves defaulted.\<close>

definition defaultRetries :: nat where
  "defaultRetries = 3"

subsection \<open>startBot\<close>

text \<open>
  The loop \<open>while (true)\<close> of \<open>startBot\<close> never ends by itself, so the model runs a
  given number of its cycles: the result \<open>None\<close> says that the loop is still running after
  them, \<open>Some\<close> that it has been left, by an error thrown out of a phase (\<open>Inl\<close>). The
  pacing delays are recorded as calls; the cycle counter is only printed.
\<close>

fun runCycles :: "env \<Rightarrow> nat \<Rightarrow> state \<Rightarrow> (error + unit) option \<times> state" where
  "runCycles env 0 st = (None, st)"
| "runCycles env (Suc n) st =
     (case buySol env (1 / 100) (1 / 100) defaultRetries st of
        (Inl err, st1) \<Rightarrow> (Some (Inl err), st1)
      | (Inr ok, st1) \<Rightarrow>
          (case sellSol env 100 (1 / 100) defaultRetries (recordCall (SetTimeout 6000) st1) of
             (Inl err, st2) \<Rightarrow> (Some (Inl err), st2)
           | (Inr ok', st2) \<Rightarrow> runCycles env n (recordCall (SetTimeout 6000) st2)))"


section \<open>Vocabulary of the properties\<close>

subsection \<open>The resolver\<close>

text \<open>
  The target pair in either orientation, in the words of the specification: base and
  quote equal the target base and quote, or the reverse.
\<close>

definition isTargetPair :: "market \<Rightarrow> bool" where
  "isTargetPair m \<longleftrightarrow>
     (baseMint m = BASE_MINT \<and> quoteMint m = QUOTE_MINT) \<or>
     (baseMint m = QUOTE_MINT \<and> quoteMint m = BASE_MINT)"

text \<open>The trace once the first \<open>j\<close> candidates have been probed, starting from trace \<open>h\<close>.\<close>

definition probeTrace :: "call list \<Rightarrow> programAccount list \<Rightarrow> nat \<Rightarrow> call list" where
  "probeTrace h allMarkets j = h @ map (\<lambda>a. MarketLoad (pubkey a) PROGRAM_ID) (take j allMarkets)"

text \<open>
  Candidate \<open>i\<close> decodes as a market of the target pair at the moment it is probed, when
  the probing started at trace \<open>h\<close> and the candidates before it were probed in order.
\<close>

definition matchesAt :: "env \<Rightarrow> call list \<Rightarrow> programAccount list \<Rightarrow> nat \<Rightarrow> bool" where
  "matchesAt env h allMarkets i =
     (case marketLoad env (probeTrace h allMarkets i) (pubkey (allMarkets ! i)) PROGRAM_ID of
        Inr m \<Rightarrow> isTargetPair m
      | Inl err \<Rightarrow> False)"

text \<open>
  The first half of \<open>findMarkets\<close>, up to the probing loop: the accumulated candidate
  list (or the error of the unfiltered scan) and the state in which probing starts.
\<close>

definition candidates :: "env \<Rightarrow> state \<Rightarrow> (error + programAccount list) \<times> state" where
  "candidates env st =
     (case scanSizes env possibleSizes [] st of
        (allMarkets, st1) \<Rightarrow>
          if allMarkets = [] then
            (getProgramAccounts env (trace st1) PROGRAM_ID None, recordCall (GetProgramAccounts PROGRAM_ID None) st1)
          else (Inr allMarkets, st1))"

text \<open>The five size-filtered scans, in the order of \<open>possibleSizes\<close>.\<close>

definition filteredScans :: "call list" where
  "filteredScans = map (\<lambda>sz. GetProgramAccounts PROGRAM_ID (Some sz)) possibleSizes"

subsection \<open>The scans\<close>

text \<open>The unfiltered scans of all accounts of the program in a trace, counted.\<close>

definition unfilteredScans :: "call list \<Rightarrow> nat" where
  "unfilteredScans h = length (filter (\<lambda>c. c = GetProgramAccounts PROGRAM_ID None) h)"

text \<open>
  What the size-filtered scans over a list of sizes yield together, when the first of
  them is issued at trace \<open>h\<close>: a scan that throws yields nothing.
\<close>

fun sizeYields :: "env \<Rightarrow> call list \<Rightarrow> nat list \<Rightarrow> programAccount list" where
  "sizeYields env h [] = []"
| "sizeYields env h (sz # sizes) =
     (case getProgramAccounts env h PROGRAM_ID (Some sz) of Inr found \<Rightarrow> found | Inl err \<Rightarrow> []) @
     sizeYields env (h @ [GetProgramAccounts PROGRAM_ID (Some sz)]) sizes"

subsection \<open>Orders and settlement accounts\<close>

text \<open>The calls made between a state and a later one.\<close>

definition newCalls :: "state \<Rightarrow> state \<Rightarrow> call list" where
  "newCalls st st' = drop (length (trace st)) (trace st')"

text \<open>The orders handed to \<open>market.placeOrder\<close> in a trace, in order.\<close>

fun placedOrder :: "call \<Rightarrow> orderArgs option" where
  "placedOrder (PlaceOrder m args) = Some args"
| "placedOrder c = None"

definition ordersPlaced :: "call list \<Rightarrow> orderArgs list" where
  "ordersPlaced h = List.map_filter placedOrder h"

text \<open>The settlement account of the wallet for a mint: the associated token address.\<close>

definition settlementAccount :: "env \<Rightarrow> address \<Rightarrow> address" where
  "settlementAccount env mint = getAssociatedTokenAddressSync env mint (walletPublicKey env)"

subsection \<open>The loader and the cache\<close>

text \<open>
  The first half of \<open>loadMarket\<close>: the address it goes on with, read from
  \<open>MARKET_ADDRESS\<close> or resolved by \<open>findMarkets\<close> and stored there, and the state
  in which it goes on.
\<close>

definition resolveAddress :: "env \<Rightarrow> state \<Rightarrow> (error + address) \<times> state" where
  "resolveAddress env st =
     (case MARKET_ADDRESS st of
        Some a \<Rightarrow> (Inr a, st)
      | None \<Rightarrow>
          (case findMarkets env st of
             (Inl err, st1) \<Rightarrow> (Inl err, st1)
           | (Inr found, st1) \<Rightarrow> (Inr found, st1\<lparr>MARKET_ADDRESS := Some found\<rparr>)))"

text \<open>The scans of program accounts in a trace, filtered or not.\<close>

fun isScan :: "call \<Rightarrow> bool" where
  "isScan (GetProgramAccounts prog flt) = True"
| "isScan c = False"

definition scans :: "call list \<Rightarrow> call list" where
  "scans h = filter isScan h"


subsection \<open>The retry block\<close>

text \<open>
  What a retry block prints after attempt number \<open>k\<close> (counted from 1) of a phase with
  ceiling \<open>retries\<close>: the order-sent line, or the retry line, followed by the
  all-retries-failed line when the attempt was the last one allowed.
\<close>

definition afterAttempt :: "string \<Rightarrow> nat \<Rightarrow> nat \<Rightarrow> (error + signature) \<times> state \<Rightarrow> state" where
  "afterAttempt sd k retries res =
     (case res of
        (Inr tx, st1) \<Rightarrow> consoleLine (OrderSent sd tx) st1
      | (Inl (Error message), st1) \<Rightarrow>
          if k = retries then
            consoleLine (AllRetriesFailed sd) (consoleLine (RetryError sd k retries message) st1)
          else consoleLine (RetryError sd k retries message) st1)"

definition failed :: "(error + signature) \<times> state \<Rightarrow> bool" where
  "failed res = isl (fst res)"

text \<open>
  The attempts of a phase with ceiling 3, each started in the state the one before left:
  the second is only made when the first failed, the third when the second failed too.
\<close>

definition firstAttempt ::
  "env \<Rightarrow> string \<Rightarrow> number \<Rightarrow> number \<Rightarrow> state \<Rightarrow> (error + signature) \<times> state" where
  "firstAttempt env sd p s st = attempt env sd p s (consoleLine (Attempting sd) st)"

definition secondAttempt ::
  "env \<Rightarrow> string \<Rightarrow> number \<Rightarrow> number \<Rightarrow> state \<Rightarrow> (error + signature) \<times> state" where
  "secondAttempt env sd p s st =
     attempt env sd p s (afterAttempt sd 1 3 (firstAttempt env sd p s st))"

definition thirdAttempt ::
  "env \<Rightarrow> string \<Rightarrow> number \<Rightarrow> number \<Rightarrow> state \<Rightarrow> (error + signature) \<times> state" where
  "thirdAttempt env sd p s st =
     attempt env sd p s (afterAttempt sd 2 3 (secondAttempt env sd p s st))"

text \<open>
  The state in which a phase with ceiling 3 ends: after the first attempt that did not
  fail, or after the third attempt.
\<close>

definition phaseOutcome ::
  "env \<Rightarrow> string \<Rightarrow> number \<Rightarrow> number \<Rightarrow> state \<Rightarrow> state" where
  "phaseOutcome env sd p s st =
     (if \<not> failed (firstAttempt env sd p s st) then
        afterAttempt sd 1 3 (firstAttempt env sd p s st)
      else if \<not> failed (secondAttempt env sd p s st) then
        afterAttempt sd 2 3 (secondAttempt env sd p s st)
      else afterAttempt sd 3 3 (thirdAttempt env sd p s st))"

section \<open>Example environments\<close>

text \<open>
  A ledger that answers every scan from a fixed table and decodes the accounts of a fixed
  table of markets. A settlement account exists once a confirmed transaction has created
  it. The clock advances by one millisecond per collaborator call.
\<close>

fun createsAccount :: "address \<Rightarrow> call \<Rightarrow> bool" where
  "createsAccount a (SendAndConfirmTransaction tx signers) =
     list_ex (\<lambda>ins. case ins of CreateAssociatedTokenAccount p ata ow mi pr \<Rightarrow> ata = a) tx"
| "createsAccount a c = False"

definition ledgerEnv ::
  "(nat option \<Rightarrow> error + programAccount list) \<Rightarrow> (address \<Rightarrow> market option) \<Rightarrow> env" where
  "ledgerEnv scan markets =
     \<lparr>walletPublicKey = ''Wallet'',
      getProgramAccounts = (\<lambda>h prog flt. if prog = PROGRAM_ID then scan flt else Inr []),
      marketLoad = (\<lambda>h a prog. case (if prog = PROGRAM_ID then markets a else None) of
                                   Some m \<Rightarrow> Inr m
                                 | None \<Rightarrow> Inl (Error ''not a market'')),
      getAccountInfo = (\<lambda>h a. Inr (if markets a \<noteq> None \<or> list_ex (createsAccount a) h
                                    then Some \<lparr>infoDataLength = 165\<rparr> else None)),
      getAssociatedTokenAddressSync = (\<lambda>mint owner'. owner' @ ''/'' @ mint),
      sendAndConfirmTransaction = (\<lambda>h tx signers. Inr ''sigCreate''),
      dateNow = (\<lambda>h. 1700000000000 + length h),
      placeOrder = (\<lambda>h m args. Inr ''sigOrder''),
      getBalance = (\<lambda>h a. Inr 1000000000)\<rparr>"

text \<open>
  Four accounts of size 808: one that is no market, a market of another pair, the target
  pair reversed, the target pair.
\<close>

definition fourAccounts :: "programAccount list" where
  "fourAccounts =
     [\<lparr>pubkey = ''Junk'', dataLength = 808\<rparr>,
      \<lparr>pubkey = ''Other'', dataLength = 808\<rparr>,
      \<lparr>pubkey = ''UsdcSol'', dataLength = 808\<rparr>,
      \<lparr>pubkey = ''SolUsdc'', dataLength = 808\<rparr>]"

definition fourMarkets :: "address \<Rightarrow> market option" where
  "fourMarkets a =
     (if a = ''Other'' then
        Some \<lparr>marketPubkey = a, baseMint = ''Bonk'', quoteMint = QUOTE_MINT\<rparr>
      else if a = ''UsdcSol'' then
        Some \<lparr>marketPubkey = a, baseMint = QUOTE_MINT, quoteMint = BASE_MINT\<rparr>
      else if a = ''SolUsdc'' then
        Some \<lparr>marketPubkey = a, baseMint = BASE_MINT, quoteMint = QUOTE_MINT\<rparr>
      else None)"

definition liveEnv :: env where
  "liveEnv = ledgerEnv (\<lambda>flt. if flt = Some 808 then Inr fourAccounts else Inr []) fourMarkets"

text \<open>Twenty-one accounts of size 760; only the last one is a market.\<close>

definition farAccounts :: "programAccount list" where
  "farAccounts =
     replicate 20 \<lparr>pubkey = ''Junk'', dataLength = 760\<rparr> @
     [\<lparr>pubkey = ''SolUsdc'', dataLength = 760\<rparr>]"

definition farEnv :: env where
  "farEnv = ledgerEnv (\<lambda>flt. if flt = Some 760 then Inr farAccounts else Inr []) fourMarkets"

text \<open>The four accounts have none of the probed sizes; only the unfiltered scan finds them.\<close>

definition fallbackEnv :: env where
  "fallbackEnv = ledgerEnv (\<lambda>flt. if flt = None then Inr fourAccounts else Inr []) fourMarkets"

text \<open>The market that \<open>Market.load\<close> decodes at the address \<open>UsdcSol\<close>.\<close>

definition usdcSolMarket :: market where
  "usdcSolMarket = \<lparr>marketPubkey = ''UsdcSol'', baseMint = QUOTE_MINT, quoteMint = BASE_MINT\<rparr>"

text \<open>The transaction that creates the wallet's settlement account for the quote mint.\<close>

definition createQuoteAccount :: call where
  "createQuoteAccount =
     SendAndConfirmTransaction
       [CreateAssociatedTokenAccount ''Wallet'' (settlementAccount liveEnv QUOTE_MINT) ''Wallet''
          QUOTE_MINT TOKEN_PROGRAM_ID]
       [''Wallet'']"

text \<open>The state after the quote settlement account has been checked and created.\<close>

definition quoteCreated :: state where
  "quoteCreated =
     \<lparr>MARKET_ADDRESS = None,
      trace = [GetAccountInfo (settlementAccount liveEnv QUOTE_MINT), createQuoteAccount],
      console = []\<rparr>"

text \<open>The buy order placed from that state, at clock readings 1700000000002 and 1700000000003.\<close>

definition firstOrder :: orderArgs where
  "firstOrder =
     \<lparr>owner = ''Wallet'',
      payer = settlementAccount liveEnv QUOTE_MINT,
      side = ''buy'',
      price = 1 / 100,
      orderSize = 1 / 100,
      orderType = ''limit'',
      clientOrderId = 1700000000002,
      selfTradeBehavior = ''decrementTake'',
      expiryTimestamp = 1700000060\<rparr>"

definition firstOrderPlaced :: state where
  "firstOrderPlaced =
     quoteCreated\<lparr>trace := trace quoteCreated @
       [DateNow, DateNow, PlaceOrder usdcSolMarket firstOrder]\<rparr>"

text \<open>The state in which \<open>findMarkets\<close> returns on the four accounts, from the initial state.\<close>

definition resolved :: state where
  "resolved =
     \<lparr>MARKET_ADDRESS = None,
      trace = filteredScans @
        [MarketLoad ''Junk'' PROGRAM_ID, MarketLoad ''Other'' PROGRAM_ID, MarketLoad ''UsdcSol'' PROGRAM_ID],
      console = []\<rparr>"

text \<open>The state after the first \<open>loadMarket\<close> on the four accounts.\<close>

definition marketLoaded :: state where
  "marketLoaded =
     \<lparr>MARKET_ADDRESS = Some ''UsdcSol'',
      trace = trace resolved @ [GetAccountInfo ''UsdcSol'', MarketLoad ''UsdcSol'' PROGRAM_ID],
      console = []\<rparr>"

text \<open>The ledger of the four accounts on which every account is gone after ten calls.\<close>

definition vanishingEnv :: env where
  "vanishingEnv =
     liveEnv\<lparr>getAccountInfo :=
       \<lambda>h a. Inr (if length h < 10 then Some \<lparr>infoDataLength = 808\<rparr> else None)\<rparr>"

text \<open>The state in which \<open>findMarkets\<close> throws on the twenty-one accounts.\<close>

definition farProbed :: state where
  "farProbed =
     \<lparr>MARKET_ADDRESS = None,
      trace = filteredScans @ replicate 20 (MarketLoad ''Junk'' PROGRAM_ID),
      console = []\<rparr>"

text \<open>The ledger of the four accounts behind an RPC node that refuses every scan.\<close>

definition downEnv :: env where
  "downEnv = liveEnv\<lparr>getProgramAccounts := \<lambda>h prog flt. Inl (Error ''rpc down'')\<rparr>"

text \<open>The ledger of the four accounts on which an order is rejected until twenty calls have been made.\<close>

definition flakyEnv :: env where
  "flakyEnv =
     liveEnv\<lparr>placeOrder := \<lambda>h m args.
       if length h < 20 then Inl (Error ''blockhash expired'') else Inr ''sigOrder''\<rparr>"

text \<open>The scans of one resolution that finds no account by size.\<close>

definition scansOnce :: "call list" where
  "scansOnce = filteredScans @ [GetProgramAccounts PROGRAM_ID None]"

text \<open>The transaction that creates the wallet's settlement account for the base mint.\<close>

definition createBaseAccount :: call where
  "createBaseAccount =
     SendAndConfirmTransaction
       [CreateAssociatedTokenAccount ''Wallet'' (settlementAccount liveEnv BASE_MINT) ''Wallet''
          BASE_MINT TOKEN_PROGRAM_ID]
       [''Wallet'']"

text \<open>
  The orders that a buy and a sell place as the first thing the bot does on the four
  accounts, at clock readings 1700000000012 and 1700000000013.
\<close>

definition reversedBuy :: orderArgs where
  "reversedBuy =
     \<lparr>owner = ''Wallet'',
      payer = settlementAccount liveEnv QUOTE_MINT,
      side = ''buy'',
      price = 1 / 100,
      orderSize = 1 / 100,
      orderType = ''limit'',
      clientOrderId = 1700000000012,
      selfTradeBehavior = ''decrementTake'',
      expiryTimestamp = 1700000060\<rparr>"

definition reversedSell :: orderArgs where
  "reversedSell =
     \<lparr>owner = ''Wallet'',
      payer = settlementAccount liveEnv BASE_MINT,
      side = ''sell'',
      price = 100,
      orderSize = 1 / 100,
      orderType = ''limit'',
      clientOrderId = 1700000000012,
      selfTradeBehavior = ''decrementTake'',
      expiryTimestamp = 1700000060\<rparr>"

section \<open>The probing loop\<close>

lemma probeTrace_0: "probeTrace h xs 0 = h"
  by (simp add: probeTrace_def)

lemma probeTrace_Suc:
  "i < length xs \<Longrightarrow>
   probeTrace h xs (Suc i) = probeTrace h xs i @ [MarketLoad (pubkey (xs ! i)) PROGRAM_ID]"
  by (simp add: probeTrace_def take_Suc_conv_app_nth)

lemma checkAccounts_end:
  "\<not> i < min (length xs) 20 \<Longrightarrow> checkAccounts env xs i st = (Inl marketNotFound, st)"
  by (subst checkAccounts.simps) (rule if_not_P)

lemma checkAccounts_hit:
  assumes "i < min (length xs) 20" and "trace st = probeTrace h xs i"
    and "matchesAt env h xs i"
  shows "checkAccounts env xs i st =
           (Inr (pubkey (xs ! i)), st\<lparr>trace := probeTrace h xs (Suc i)\<rparr>)"
proof -
  have len: "i < length xs" using assms(1) by arith
  show ?thesis
    using assms(2,3) len
    by (subst checkAccounts.simps, subst if_P [OF assms(1)])
       (auto simp: matchesAt_def isTargetPair_def recordCall_def probeTrace_Suc Let_def
             split: sum.splits)
qed

lemma checkAccounts_skip:
  assumes "i < min (length xs) 20" and "trace st = probeTrace h xs i"
    and "\<not> matchesAt env h xs i"
  shows "checkAccounts env xs i st =
           checkAccounts env xs (Suc i) (st\<lparr>trace := probeTrace h xs (Suc i)\<rparr>)"
proof -
  have len: "i < length xs" using assms(1) by arith
  show ?thesis
    using assms(2,3) len
    by (subst checkAccounts.simps, subst if_P [OF assms(1)])
       (auto simp: matchesAt_def isTargetPair_def recordCall_def probeTrace_Suc Let_def
             split: sum.splits)
qed

text \<open>From index \<open>i\<close> on, the loop stops at the first candidate that matches.\<close>

lemma checkAccounts_first_match_from:
  assumes "k < min (length xs) 20" and "matchesAt env h xs k"
    and "\<forall>j. i \<le> j \<and> j < k \<longrightarrow> \<not> matchesAt env h xs j"
    and "i \<le> k" and "trace st = probeTrace h xs i"
  shows "checkAccounts env xs i st =
           (Inr (pubkey (xs ! k)), st\<lparr>trace := probeTrace h xs (Suc k)\<rparr>)"
  using assms
proof (induction "k - i" arbitrary: i st)
  case 0
  then have "i = k" by simp
  with 0 show ?case by (simp add: checkAccounts_hit)
next
  case (Suc d)
  then have lt: "i < k" by simp
  with Suc.prems have nm: "\<not> matchesAt env h xs i" by auto
  from lt Suc.prems(1) have bound: "i < min (length xs) 20" by arith
  have step: "checkAccounts env xs i st =
      checkAccounts env xs (Suc i) (st\<lparr>trace := probeTrace h xs (Suc i)\<rparr>)"
    using bound Suc.prems(5) nm by (rule checkAccounts_skip)
  have "checkAccounts env xs (Suc i) (st\<lparr>trace := probeTrace h xs (Suc i)\<rparr>) =
      (Inr (pubkey (xs ! k)),
       st\<lparr>trace := probeTrace h xs (Suc i)\<rparr>\<lparr>trace := probeTrace h xs (Suc k)\<rparr>)"
  proof (rule Suc.hyps(1))
    show "d = k - Suc i" using Suc.hyps(2) by simp
    show "k < min (length xs) 20" by (rule Suc.prems(1))
    show "matchesAt env h xs k" by (rule Suc.prems(2))
    show "\<forall>j. Suc i \<le> j \<and> j < k \<longrightarrow> \<not> matchesAt env h xs j" using Suc.prems(3) by auto
    show "Suc i \<le> k" using lt by simp
    show "trace (st\<lparr>trace := probeTrace h xs (Suc i)\<rparr>) = probeTrace h xs (Suc i)" by simp
  qed
  with step show ?case by simp
qed

text \<open>From index \<open>i\<close> on, a loop that meets no match runs to the cap and throws.\<close>

lemma checkAccounts_no_match_from:
  assumes "\<forall>j. i \<le> j \<and> j < min (length xs) 20 \<longrightarrow> \<not> matchesAt env h xs j"
    and "i \<le> min (length xs) 20" and "trace st = probeTrace h xs i"
  shows "checkAccounts env xs i st =
           (Inl marketNotFound, st\<lparr>trace := probeTrace h xs (min (length xs) 20)\<rparr>)"
  using assms
proof (induction "min (length xs) 20 - i" arbitrary: i st)
  case 0
  then have "i = min (length xs) 20" by simp
  with 0 show ?case by (simp add: checkAccounts_end)
next
  case (Suc d)
  then have bound: "i < min (length xs) 20" by arith
  with Suc.prems have nm: "\<not> matchesAt env h xs i" by auto
  have step: "checkAccounts env xs i st =
      checkAccounts env xs (Suc i) (st\<lparr>trace := probeTrace h xs (Suc i)\<rparr>)"
    using bound Suc.prems(3) nm by (rule checkAccounts_skip)
  have "checkAccounts env xs (Suc i) (st\<lparr>trace := probeTrace h xs (Suc i)\<rparr>) =
      (Inl marketNotFound,
       st\<lparr>trace := probeTrace h xs (Suc i)\<rparr>\<lparr>trace := probeTrace h xs (min (length xs) 20)\<rparr>)"
  proof (rule Suc.hyps(1))
    show "d = min (length xs) 20 - Suc i" using Suc.hyps(2) by simp
    show "\<forall>j. Suc i \<le> j \<and> j < min (length xs) 20 \<longrightarrow> \<not> matchesAt env h xs j"
      using Suc.prems(1) by auto
    show "Suc i \<le> min (length xs) 20" using bound by arith
    show "trace (st\<lparr>trace := probeTrace h xs (Suc i)\<rparr>) = probeTrace h xs (Suc i)" by simp
  qed
  with step show ?case by simp
qed

lemma checkAccounts_first_match:
  assumes "k < min (length xs) 20" and "matchesAt env (trace st) xs k"
    and "\<forall>j<k. \<not> matchesAt env (trace st) xs j"
  shows "checkAccounts env xs 0 st =
           (Inr (pubkey (xs ! k)), st\<lparr>trace := probeTrace (trace st) xs (Suc k)\<rparr>)"
  using assms by (intro checkAccounts_first_match_from) (auto simp: probeTrace_0)

lemma checkAccounts_no_match:
  assumes "\<forall>j<min (length xs) 20. \<not> matchesAt env (trace st) xs j"
  shows "checkAccounts env xs 0 st =
           (Inl marketNotFound,
            st\<lparr>trace := probeTrace (trace st) xs (min (length xs) 20)\<rparr>)"
  using assms by (intro checkAccounts_no_match_from) (auto simp: probeTrace_0)

text \<open>Whatever the outcome, the loop has probed a prefix of the first twenty candidates.\<close>

lemma checkAccounts_probes:
  "\<exists>k\<le>min (length xs) 20.
     snd (checkAccounts env xs 0 st) = st\<lparr>trace := probeTrace (trace st) xs k\<rparr>"
proof (cases "\<exists>k<min (length xs) 20. matchesAt env (trace st) xs k")
  case True
  define k where "k = (LEAST k. k < min (length xs) 20 \<and> matchesAt env (trace st) xs k)"
  from True have k: "k < min (length xs) 20 \<and> matchesAt env (trace st) xs k"
    unfolding k_def by - (erule exE, rule LeastI)
  have least: "\<forall>j<k. \<not> matchesAt env (trace st) xs j"
  proof (intro allI impI)
    fix j assume "j < k"
    then have "\<not> (j < min (length xs) 20 \<and> matchesAt env (trace st) xs j)"
      unfolding k_def by (rule not_less_Least)
    with \<open>j < k\<close> k show "\<not> matchesAt env (trace st) xs j" by auto
  qed
  from k least have "checkAccounts env xs 0 st =
      (Inr (pubkey (xs ! k)), st\<lparr>trace := probeTrace (trace st) xs (Suc k)\<rparr>)"
    by (intro checkAccounts_first_match) auto
  moreover from k have "Suc k \<le> min (length xs) 20" by arith
  ultimately show ?thesis by (intro exI [of _ "Suc k"]) simp
next
  case False
  then have "checkAccounts env xs 0 st =
      (Inl marketNotFound, st\<lparr>trace := probeTrace (trace st) xs (min (length xs) 20)\<rparr>)"
    by (intro checkAccounts_no_match) auto
  then show ?thesis by (intro exI [of _ "min (length xs) 20"]) simp
qed

lemma findMarkets_candidates:
  "findMarkets env st =
     (case candidates env st of
        (Inl err, st1) \<Rightarrow> (Inl err, st1)
      | (Inr allMarkets, st1) \<Rightarrow> checkAccounts env allMarkets 0 st1)"
  by (simp add: findMarkets_def candidates_def split: prod.splits sum.splits)

subsection \<open>The example ledgers\<close>

lemma liveEnv_candidates:
  "candidates liveEnv initialState = (Inr fourAccounts, initialState\<lparr>trace := filteredScans\<rparr>)"
  by (simp add: candidates_def liveEnv_def ledgerEnv_def possibleSizes_def initialState_def
      recordCall_def fourAccounts_def filteredScans_def)

lemma liveEnv_matches:
  "matchesAt liveEnv h fourAccounts 2"
  "\<not> matchesAt liveEnv h fourAccounts 0"
  "\<not> matchesAt liveEnv h fourAccounts 1"
  by (simp_all add: matchesAt_def liveEnv_def ledgerEnv_def fourAccounts_def fourMarkets_def
      isTargetPair_def BASE_MINT_def QUOTE_MINT_def)

lemma farEnv_candidates:
  "candidates farEnv initialState = (Inr farAccounts, initialState\<lparr>trace := filteredScans\<rparr>)"
  by (simp add: candidates_def farEnv_def ledgerEnv_def possibleSizes_def initialState_def
      recordCall_def farAccounts_def filteredScans_def)

lemma farEnv_matches:
  "matchesAt farEnv h farAccounts 20"
  "j < 20 \<Longrightarrow> \<not> matchesAt farEnv h farAccounts j"
  by (simp_all add: matchesAt_def farEnv_def ledgerEnv_def farAccounts_def fourMarkets_def
      isTargetPair_def BASE_MINT_def QUOTE_MINT_def nth_append)

section \<open>The resolver returns the first match within the cap\<close>

text \<open>
  C2, as the code has it: when the scans produced the candidate list, and candidate \<open>k\<close>,
  one of the first twenty, is the first that decodes as a market of the target pair in
  either orientation, \<open>findMarkets\<close> returns its address at once. The candidates before
  it, which did not decode or were markets of another pair, have each been probed once
  and skipped; no candidate after it is probed.
\<close>

theorem findMarkets_first_match:
  assumes "candidates env st = (Inr allMarkets, st1)"
    and "k < min (length allMarkets) 20"
    and "matchesAt env (trace st1) allMarkets k"
    and "\<forall>j<k. \<not> matchesAt env (trace st1) allMarkets j"
  shows "findMarkets env st =
           (Inr (pubkey (allMarkets ! k)),
            st1\<lparr>trace := probeTrace (trace st1) allMarkets (Suc k)\<rparr>)"
  using assms by (simp add: findMarkets_candidates checkAccounts_first_match)

text \<open>
  On the four accounts, the reversed market at index 2 wins over the target market at
  index 3; the two accounts before it are probed and skipped.
\<close>

theorem findMarkets_first_match_witness:
  "findMarkets liveEnv initialState =
     (Inr ''UsdcSol'',
      \<lparr>MARKET_ADDRESS = None,
       trace = filteredScans @
         [MarketLoad ''Junk'' PROGRAM_ID, MarketLoad ''Other'' PROGRAM_ID, MarketLoad ''UsdcSol'' PROGRAM_ID],
       console = []\<rparr>)"
proof -
  have "\<forall>j<2. \<not> matchesAt liveEnv (trace (initialState\<lparr>trace := filteredScans\<rparr>)) fourAccounts j"
    using liveEnv_matches(2,3) by (auto simp: less_Suc_eq numeral_2_eq_2)
  from findMarkets_first_match [OF liveEnv_candidates _ liveEnv_matches(1) this]
  show ?thesis
    by (simp add: fourAccounts_def probeTrace_def initialState_def numeral_3_eq_3)
qed

text \<open>
  The claim as stated, for every candidate list, fails beyond the cap: of twenty-one
  candidates only the last decodes, as the target market, and \<open>findMarkets\<close> throws the
  not-found error instead of returning its address.
\<close>

theorem findMarkets_first_match_counterexample:
  "candidates farEnv initialState = (Inr farAccounts, initialState\<lparr>trace := filteredScans\<rparr>) \<and>
   matchesAt farEnv filteredScans farAccounts 20 \<and>
   fst (findMarkets farEnv initialState) = Inl marketNotFound"
proof -
  have "\<forall>j<min (length farAccounts) 20.
          \<not> matchesAt farEnv (trace (initialState\<lparr>trace := filteredScans\<rparr>)) farAccounts j"
    by (simp add: farEnv_matches(2))
  then have "checkAccounts farEnv farAccounts 0 (initialState\<lparr>trace := filteredScans\<rparr>) =
      (Inl marketNotFound,
       initialState\<lparr>trace := filteredScans\<rparr>\<lparr>trace :=
         probeTrace (trace (initialState\<lparr>trace := filteredScans\<rparr>)) farAccounts
           (min (length farAccounts) 20)\<rparr>)"
    by (rule checkAccounts_no_match)
  then show ?thesis
    by (simp add: findMarkets_candidates farEnv_candidates farEnv_matches(1))
qed

section \<open>The cap on probing\<close>

text \<open>
  C3: whatever the candidates, \<open>findMarkets\<close> probes a prefix of at most twenty of them
  and nothing else; and when none of the first twenty (or of all, if fewer) decodes as a
  market of the target pair, it throws the not-found error after probing exactly those.
\<close>

theorem findMarkets_cap:
  assumes "candidates env st = (Inr allMarkets, st1)"
  shows "(\<exists>k\<le>20. snd (findMarkets env st) =
            st1\<lparr>trace := probeTrace (trace st1) allMarkets k\<rparr>) \<and>
         ((\<forall>j<min (length allMarkets) 20. \<not> matchesAt env (trace st1) allMarkets j) \<longrightarrow>
            findMarkets env st =
              (Inl marketNotFound,
               st1\<lparr>trace := probeTrace (trace st1) allMarkets (min (length allMarkets) 20)\<rparr>))"
proof
  from checkAccounts_probes [of allMarkets env st1]
  obtain k where "k \<le> min (length allMarkets) 20"
    and "snd (checkAccounts env allMarkets 0 st1) =
           st1\<lparr>trace := probeTrace (trace st1) allMarkets k\<rparr>"
    by blast
  then show "\<exists>k\<le>20. snd (findMarkets env st) =
      st1\<lparr>trace := probeTrace (trace st1) allMarkets k\<rparr>"
    using assms by (intro exI [of _ k]) (simp add: findMarkets_candidates)
next
  show "(\<forall>j<min (length allMarkets) 20. \<not> matchesAt env (trace st1) allMarkets j) \<longrightarrow>
            findMarkets env st =
              (Inl marketNotFound,
               st1\<lparr>trace := probeTrace (trace st1) allMarkets (min (length allMarkets) 20)\<rparr>)"
    using assms by (simp add: findMarkets_candidates checkAccounts_no_match)
qed

text \<open>
  On the twenty-one accounts the resolver probes the twenty that are no markets and
  throws; the twenty-first is never loaded.
\<close>

theorem findMarkets_cap_witness:
  "findMarkets farEnv initialState =
     (Inl marketNotFound,
      \<lparr>MARKET_ADDRESS = None,
       trace = filteredScans @ replicate 20 (MarketLoad ''Junk'' PROGRAM_ID),
       console = []\<rparr>)"
proof -
  have "\<forall>j<min (length farAccounts) 20.
          \<not> matchesAt farEnv (trace (initialState\<lparr>trace := filteredScans\<rparr>)) farAccounts j"
    by (simp add: farEnv_matches(2))
  with findMarkets_cap [OF farEnv_candidates]
  show ?thesis
    by (simp add: farAccounts_def probeTrace_def initialState_def)
qed

section \<open>The fallback scan\<close>

lemma scanSizes_eq:
  "scanSizes env sizes acc st =
     (acc @ sizeYields env (trace st) sizes,
      st\<lparr>trace := trace st @ map (\<lambda>sz. GetProgramAccounts PROGRAM_ID (Some sz)) sizes\<rparr>)"
  by (induction sizes arbitrary: acc st) (auto simp: recordCall_def split: sum.splits)

lemma candidates_eq:
  "candidates env st =
     (if sizeYields env (trace st) possibleSizes = [] then
        (getProgramAccounts env (trace st @ filteredScans) PROGRAM_ID None,
         st\<lparr>trace := trace st @ filteredScans @ [GetProgramAccounts PROGRAM_ID None]\<rparr>)
      else (Inr (sizeYields env (trace st) possibleSizes),
            st\<lparr>trace := trace st @ filteredScans\<rparr>))"
  by (simp add: candidates_def scanSizes_eq filteredScans_def recordCall_def)

lemma unfilteredScans_simps:
  "unfilteredScans (h @ h') = unfilteredScans h + unfilteredScans h'"
  "unfilteredScans filteredScans = 0"
  "unfilteredScans (map (\<lambda>a. MarketLoad a PROGRAM_ID) probes) = 0"
  "unfilteredScans [] = 0"
  "unfilteredScans (c # h) = (if c = GetProgramAccounts PROGRAM_ID None then 1 else 0) + unfilteredScans h"
  by (simp_all add: unfilteredScans_def filteredScans_def)

lemma example_yields:
  "sizeYields fallbackEnv [] possibleSizes = []"
  "sizeYields liveEnv [] possibleSizes = fourAccounts"
  by (simp_all add: fallbackEnv_def liveEnv_def ledgerEnv_def possibleSizes_def)

text \<open>The calls of \<open>findMarkets\<close>, and that it changes nothing but the trace.\<close>

lemma findMarkets_calls:
  "\<exists>probes. snd (findMarkets env st) =
     st\<lparr>trace := trace st @ filteredScans @
       (if sizeYields env (trace st) possibleSizes = [] then [GetProgramAccounts PROGRAM_ID None] else []) @
       map (\<lambda>a. MarketLoad a PROGRAM_ID) probes\<rparr>"
proof (cases "candidates env st")
  case (Pair r st1)
  show ?thesis
  proof (cases r)
    case (Inl err)
    with Pair have "sizeYields env (trace st) possibleSizes = []"
      by (auto simp: candidates_eq split: if_splits)
    with Pair Inl show ?thesis
      by (intro exI [of _ "[]"]) (auto simp: findMarkets_candidates candidates_eq)
  next
    case (Inr allMarkets)
    from checkAccounts_probes [of allMarkets env st1]
    obtain k where k: "snd (checkAccounts env allMarkets 0 st1) =
        st1\<lparr>trace := probeTrace (trace st1) allMarkets k\<rparr>"
      by blast
    from Pair Inr have "st1 = st\<lparr>trace := trace st @ filteredScans @
        (if sizeYields env (trace st) possibleSizes = [] then [GetProgramAccounts PROGRAM_ID None] else [])\<rparr>"
      by (auto simp: candidates_eq split: if_splits)
    with Pair Inr k show ?thesis
      by (intro exI [of _ "map pubkey (take k allMarkets)"])
         (simp add: findMarkets_candidates probeTrace_def comp_def)
  qed
qed

text \<open>
  C8: the calls \<open>findMarkets\<close> makes are the five size-filtered scans in the order of the
  probe list, then one unfiltered scan exactly when the filtered scans together yielded
  no account and none otherwise, then only \<open>Market.load\<close> probes.
\<close>

theorem findMarkets_fallback:
  "\<exists>probes. trace (snd (findMarkets env st)) =
     trace st @ filteredScans @
     (if sizeYields env (trace st) possibleSizes = [] then [GetProgramAccounts PROGRAM_ID None] else []) @
     map (\<lambda>a. MarketLoad a PROGRAM_ID) probes"
proof -
  from findMarkets_calls [of env st] obtain probes where
    "snd (findMarkets env st) =
       st\<lparr>trace := trace st @ filteredScans @
         (if sizeYields env (trace st) possibleSizes = [] then [GetProgramAccounts PROGRAM_ID None]
          else []) @
         map (\<lambda>a. MarketLoad a PROGRAM_ID) probes\<rparr>"
    by blast
  then show ?thesis by (intro exI [of _ probes]) simp
qed

text \<open>
  Where no account has a probed size there is exactly one unfiltered scan; where the
  scan for size 808 finds the four accounts there is none.
\<close>

theorem findMarkets_fallback_witness:
  "unfilteredScans (trace (snd (findMarkets fallbackEnv initialState))) = 1 \<and>
   unfilteredScans (trace (snd (findMarkets liveEnv initialState))) = 0"
proof -
  have nonempty: "fourAccounts \<noteq> []" by (simp add: fourAccounts_def)
  from findMarkets_fallback [of fallbackEnv initialState]
  have one: "unfilteredScans (trace (snd (findMarkets fallbackEnv initialState))) = 1"
    by (auto simp: initialState_def example_yields unfilteredScans_simps)
  from findMarkets_fallback [of liveEnv initialState]
  have none: "unfilteredScans (trace (snd (findMarkets liveEnv initialState))) = 0"
    by (auto simp: initialState_def example_yields nonempty unfilteredScans_simps)
  from one none show ?thesis by simp
qed

section \<open>Traces, orders and the example ledger\<close>

lemma newCalls_append [simp]: "newCalls st (st'\<lparr>trace := trace st @ h\<rparr>) = h"
  by (simp add: newCalls_def)

lemma ordersPlaced_append: "ordersPlaced (h @ h') = ordersPlaced h @ ordersPlaced h'"
  by (induction h) (simp_all add: ordersPlaced_def split: option.splits)

lemma ordersPlaced_simps:
  "ordersPlaced [] = []"
  "ordersPlaced (PlaceOrder m args # h) = args # ordersPlaced h"
  "ordersPlaced (GetAccountInfo a # h) = ordersPlaced h"
  "ordersPlaced (DateNow # h) = ordersPlaced h"
  by (simp_all add: ordersPlaced_def)

lemma ledgerEnv_fields:
  "walletPublicKey (ledgerEnv scan markets) = ''Wallet''"
  "getProgramAccounts (ledgerEnv scan markets) h PROGRAM_ID flt = scan flt"
  "marketLoad (ledgerEnv scan markets) h a PROGRAM_ID =
     (case markets a of Some m \<Rightarrow> Inr m | None \<Rightarrow> Inl (Error ''not a market''))"
  "getAccountInfo (ledgerEnv scan markets) h a =
     Inr (if markets a \<noteq> None \<or> list_ex (createsAccount a) h
          then Some \<lparr>infoDataLength = 165\<rparr> else None)"
  "getAssociatedTokenAddressSync (ledgerEnv scan markets) mint owner' = owner' @ ''/'' @ mint"
  "sendAndConfirmTransaction (ledgerEnv scan markets) h tx signers = Inr ''sigCreate''"
  "dateNow (ledgerEnv scan markets) h = 1700000000000 + length h"
  "placeOrder (ledgerEnv scan markets) h m args = Inr ''sigOrder''"
  "getBalance (ledgerEnv scan markets) h a = Inr 1000000000"
  by (simp_all add: ledgerEnv_def)

lemma liveEnv_fields:
  "walletPublicKey liveEnv = ''Wallet''"
  "getProgramAccounts liveEnv h PROGRAM_ID flt = (if flt = Some 808 then Inr fourAccounts else Inr [])"
  "marketLoad liveEnv h a PROGRAM_ID =
     (case fourMarkets a of Some m \<Rightarrow> Inr m | None \<Rightarrow> Inl (Error ''not a market''))"
  "getAccountInfo liveEnv h a =
     Inr (if fourMarkets a \<noteq> None \<or> list_ex (createsAccount a) h
          then Some \<lparr>infoDataLength = 165\<rparr> else None)"
  "getAssociatedTokenAddressSync liveEnv mint owner' = owner' @ ''/'' @ mint"
  "sendAndConfirmTransaction liveEnv h tx signers = Inr ''sigCreate''"
  "dateNow liveEnv h = 1700000000000 + length h"
  "placeOrder liveEnv h m args = Inr ''sigOrder''"
  "getBalance liveEnv h a = Inr 1000000000"
  by (simp_all add: liveEnv_def ledgerEnv_fields)

lemma fourMarkets_accounts:
  "fourMarkets (settlementAccount liveEnv mint) = None"
  "fourMarkets ''UsdcSol'' = Some usdcSolMarket"
  "fourMarkets ''Junk'' = None"
  by (simp_all add: fourMarkets_def usdcSolMarket_def settlementAccount_def liveEnv_fields)

lemma liveEnv_settlement:
  "getAssociatedTokenAddressSync liveEnv mint (walletPublicKey liveEnv) =
     settlementAccount liveEnv mint"
  "getAssociatedTokenAddressSync liveEnv mint ''Wallet'' = settlementAccount liveEnv mint"
  by (simp_all add: settlementAccount_def liveEnv_fields)

lemma liveEnv_accountInfo:
  "getAccountInfo liveEnv h (settlementAccount liveEnv mint) =
     Inr (if list_ex (createsAccount (settlementAccount liveEnv mint)) h
          then Some \<lparr>infoDataLength = 165\<rparr> else None)"
  by (simp add: liveEnv_fields(4) fourMarkets_accounts)

lemmas liveEnv_calls =
  liveEnv_settlement liveEnv_accountInfo liveEnv_fields(1,6,7,8)

lemma settlementAccount_distinct:
  "settlementAccount liveEnv QUOTE_MINT \<noteq> settlementAccount liveEnv BASE_MINT"
  by (simp add: settlementAccount_def liveEnv_fields QUOTE_MINT_def BASE_MINT_def)

lemma placeLimitOrder_first:
  "placeLimitOrder liveEnv usdcSolMarket ''buy'' (1 / 100) (1 / 100) initialState =
     (Inr ''sigOrder'', firstOrderPlaced)"
  by (simp add: placeLimitOrder_def getOrCreateAssociatedTokenAccount_def liveEnv_calls
        Let_def recordCall_def initialState_def firstOrderPlaced_def quoteCreated_def
        createQuoteAccount_def firstOrder_def)

section \<open>The settlement account provisioner\<close>

text \<open>
  C5: for every owner and mint, \<open>getOrCreateAssociatedTokenAccount\<close> first reads the
  account at the deterministic address. If the account exists, it returns that address
  and has made no other call. If it is absent, it submits exactly one transaction, of the
  single instruction that creates the account, and returns the same address only when the
  confirmation has come back; a failed transaction is thrown on.
\<close>

theorem getOrCreateAssociatedTokenAccount_idempotent:
  assumes "ata = getAssociatedTokenAddressSync env mint owner'"
    and "tx = [CreateAssociatedTokenAccount owner' ata owner' mint TOKEN_PROGRAM_ID]"
    and "res = getOrCreateAssociatedTokenAccount env owner' mint st"
  shows "(\<exists>rest. trace (snd res) = trace st @ GetAccountInfo ata # rest) \<and>
         (\<forall>info. getAccountInfo env (trace st) ata = Inr (Some info) \<longrightarrow>
            res = (Inr ata, st\<lparr>trace := trace st @ [GetAccountInfo ata]\<rparr>)) \<and>
         (getAccountInfo env (trace st) ata = Inr None \<longrightarrow>
            snd res = st\<lparr>trace := trace st @
                [GetAccountInfo ata, SendAndConfirmTransaction tx [walletPublicKey env]]\<rparr> \<and>
            fst res =
              (case sendAndConfirmTransaction env (trace st @ [GetAccountInfo ata]) tx
                      [walletPublicKey env] of
                 Inl err \<Rightarrow> Inl err
               | Inr sig \<Rightarrow> Inr ata))"
  using assms
  by (auto simp: getOrCreateAssociatedTokenAccount_def recordCall_def Let_def
           split: sum.splits option.splits)

text \<open>
  On the example ledger the first call creates the quote account with one transaction;
  the second call, in the state the first one left, finds it and submits nothing.
\<close>

theorem getOrCreateAssociatedTokenAccount_idempotent_witness:
  "getOrCreateAssociatedTokenAccount liveEnv ''Wallet'' QUOTE_MINT initialState =
     (Inr (settlementAccount liveEnv QUOTE_MINT), quoteCreated) \<and>
   getOrCreateAssociatedTokenAccount liveEnv ''Wallet'' QUOTE_MINT quoteCreated =
     (Inr (settlementAccount liveEnv QUOTE_MINT),
      quoteCreated\<lparr>trace := trace quoteCreated @
        [GetAccountInfo (settlementAccount liveEnv QUOTE_MINT)]\<rparr>)"
proof -
  have ata: "getAssociatedTokenAddressSync liveEnv QUOTE_MINT ''Wallet'' =
      settlementAccount liveEnv QUOTE_MINT"
    by (simp add: settlementAccount_def liveEnv_fields)
  have wallet: "walletPublicKey liveEnv = ''Wallet''"
    by (simp add: liveEnv_fields)
  have confirmed: "sendAndConfirmTransaction liveEnv h tx signers = Inr ''sigCreate''"
    for h tx signers
    by (simp add: liveEnv_fields)
  have absent: "getAccountInfo liveEnv (trace initialState)
      (settlementAccount liveEnv QUOTE_MINT) = Inr None"
    by (simp add: liveEnv_fields fourMarkets_accounts initialState_def)
  have present: "getAccountInfo liveEnv (trace quoteCreated)
      (settlementAccount liveEnv QUOTE_MINT) = Inr (Some \<lparr>infoDataLength = 165\<rparr>)"
    by (simp add: liveEnv_fields fourMarkets_accounts quoteCreated_def createQuoteAccount_def)
  have first: "getOrCreateAssociatedTokenAccount liveEnv ''Wallet'' QUOTE_MINT initialState =
     (Inr (settlementAccount liveEnv QUOTE_MINT), quoteCreated)"
    using getOrCreateAssociatedTokenAccount_idempotent
      [where env = liveEnv and mint = QUOTE_MINT and owner' = "''Wallet''"
         and st = initialState, OF refl refl refl] absent
    by (intro prod_eqI)
       (simp_all add: ata wallet confirmed initialState_def quoteCreated_def
          createQuoteAccount_def)
  have second: "getOrCreateAssociatedTokenAccount liveEnv ''Wallet'' QUOTE_MINT quoteCreated =
     (Inr (settlementAccount liveEnv QUOTE_MINT),
      quoteCreated\<lparr>trace := trace quoteCreated @
        [GetAccountInfo (settlementAccount liveEnv QUOTE_MINT)]\<rparr>)"
    using getOrCreateAssociatedTokenAccount_idempotent
      [where env = liveEnv and mint = QUOTE_MINT and owner' = "''Wallet''"
         and st = quoteCreated, OF refl refl refl] present
    by (simp add: ata)
  from first second show ?thesis by simp
qed

section \<open>The order submitter\<close>

lemma getOrCreate_cases:
  fixes env owner' mint st
  defines "ata \<equiv> getAssociatedTokenAddressSync env mint owner'"
  obtains (failed) err h where
      "getOrCreateAssociatedTokenAccount env owner' mint st =
         (Inl err, st\<lparr>trace := trace st @ GetAccountInfo ata # h\<rparr>)"
      "ordersPlaced h = []"
  | (provided) h where
      "getOrCreateAssociatedTokenAccount env owner' mint st =
         (Inr ata, st\<lparr>trace := trace st @ GetAccountInfo ata # h\<rparr>)"
      "ordersPlaced h = []"
proof (cases "fst (getOrCreateAssociatedTokenAccount env owner' mint st)")
  case (Inl err)
  then have "\<exists>h. getOrCreateAssociatedTokenAccount env owner' mint st =
         (Inl err, st\<lparr>trace := trace st @ GetAccountInfo ata # h\<rparr>) \<and> ordersPlaced h = []"
    by (auto simp: getOrCreateAssociatedTokenAccount_def recordCall_def Let_def ordersPlaced_def
          ata_def split: sum.splits option.splits)
  with failed show ?thesis by blast
next
  case (Inr a)
  then have "\<exists>h. getOrCreateAssociatedTokenAccount env owner' mint st =
         (Inr ata, st\<lparr>trace := trace st @ GetAccountInfo ata # h\<rparr>) \<and> ordersPlaced h = []"
    by (auto simp: getOrCreateAssociatedTokenAccount_def recordCall_def Let_def ordersPlaced_def
          ata_def split: sum.splits option.splits)
  with provided show ?thesis by blast
qed

text \<open>
  What \<open>placeLimitOrder\<close> does on every market: the account it checks first is the
  settlement account of the constant \<open>QUOTE_MINT\<close> for a buy and of the constant
  \<open>BASE_MINT\<close> for a sell. It is the payer of every order the call places, and a call
  that returns a signature has placed exactly one order. The mints of the market \<open>m\<close>
  play no part in the choice.
\<close>

lemma placeLimitOrder_funding:
  assumes "res = placeLimitOrder env m sd p s st"
    and "new = newCalls st (snd res)"
    and "sd = ''buy'' \<and> mint = QUOTE_MINT \<or> sd = ''sell'' \<and> mint = BASE_MINT"
  shows "(\<exists>rest. new = GetAccountInfo (settlementAccount env mint) # rest) \<and>
         (\<forall>args\<in>set (ordersPlaced new). payer args = settlementAccount env mint \<and> side args = sd) \<and>
         (\<forall>sig. fst res = Inr sig \<longrightarrow> length (ordersPlaced new) = 1)"
proof -
  from assms(3) have mint: "(if sd = ''buy'' then QUOTE_MINT else BASE_MINT) = mint"
    by auto
  show ?thesis
  proof (cases rule: getOrCreate_cases [of env "walletPublicKey env" mint st])
    case (failed err h)
    with assms(1,2) mint show ?thesis
      by (simp add: placeLimitOrder_def settlementAccount_def ordersPlaced_simps)
  next
    case (provided h)
    with assms(1,2) mint show ?thesis
      by (simp add: placeLimitOrder_def settlementAccount_def ordersPlaced_simps
            ordersPlaced_append recordCall_def Let_def)
  qed
qed

text \<open>
  C7: every order that \<open>placeLimitOrder\<close> places is the last call it makes, right after two
  readings of the clock. It is a limit order with self-trade behaviour decrement-and-take;
  its client order id is the first reading, in milliseconds, so that submissions at
  different readings carry different ids; its expiry is the second reading in whole
  seconds plus 60.
\<close>

theorem placeLimitOrder_policy:
  assumes "res = placeLimitOrder env m sd p s st"
    and "new = newCalls st (snd res)"
    and "PlaceOrder m' args \<in> set new"
  shows "\<exists>pre. new = pre @ [DateNow, DateNow, PlaceOrder m' args] \<and>
           ordersPlaced pre = [] \<and>
           orderType args = ''limit'' \<and>
           selfTradeBehavior args = ''decrementTake'' \<and>
           clientOrderId args = dateNow env (trace st @ pre) \<and>
           expiryTimestamp args = dateNow env (trace st @ pre @ [DateNow]) div 1000 + 60"
proof -
  define mint where "mint = (if sd = ''buy'' then QUOTE_MINT else BASE_MINT)"
  define ata where "ata = getAssociatedTokenAddressSync env mint (walletPublicKey env)"
  have noOrder: "PlaceOrder m' args \<notin> set h" if "ordersPlaced h = []" for h
  proof
    assume "PlaceOrder m' args \<in> set h"
    then obtain h1 h2 where "h = h1 @ PlaceOrder m' args # h2" by (auto simp: in_set_conv_decomp)
    with that show False by (simp add: ordersPlaced_append ordersPlaced_simps)
  qed
  show ?thesis
  proof (cases rule: getOrCreate_cases [of env "walletPublicKey env" mint st])
    case (failed err h)
    with assms noOrder [OF failed(2)] show ?thesis
      by (simp add: placeLimitOrder_def mint_def [symmetric])
  next
    case (provided h)
    with assms noOrder [OF provided(2)] show ?thesis
      by (intro exI [of _ "GetAccountInfo ata # h"])
         (auto simp: placeLimitOrder_def mint_def [symmetric] ata_def [symmetric]
            ordersPlaced_simps recordCall_def Let_def)
  qed
qed

text \<open>
  The first buy on the example ledger, and the ids of that order and of a second buy placed
  right after it.
\<close>

theorem placeLimitOrder_policy_witness:
  "newCalls initialState firstOrderPlaced =
     trace quoteCreated @ [DateNow, DateNow, PlaceOrder usdcSolMarket firstOrder] \<and>
   orderType firstOrder = ''limit'' \<and>
   selfTradeBehavior firstOrder = ''decrementTake'' \<and>
   clientOrderId firstOrder = dateNow liveEnv (trace quoteCreated) \<and>
   expiryTimestamp firstOrder = dateNow liveEnv (trace quoteCreated @ [DateNow]) div 1000 + 60 \<and>
   map clientOrderId (ordersPlaced (trace (snd
     (placeLimitOrder liveEnv usdcSolMarket ''buy'' (1 / 100) (1 / 100) firstOrderPlaced)))) =
     [1700000000002, 1700000000006]"
proof -
  have new: "newCalls initialState firstOrderPlaced =
      trace quoteCreated @ [DateNow, DateNow, PlaceOrder usdcSolMarket firstOrder]"
    by (simp add: newCalls_def initialState_def firstOrderPlaced_def)
  have res: "(Inr ''sigOrder'', firstOrderPlaced) =
      placeLimitOrder liveEnv usdcSolMarket ''buy'' (1 / 100) (1 / 100) initialState"
    by (simp add: placeLimitOrder_first)
  have placed: "PlaceOrder usdcSolMarket firstOrder \<in> set (newCalls initialState firstOrderPlaced)"
    by (simp add: new)
  from placeLimitOrder_policy [OF res _ placed]
  obtain pre where pre:
    "newCalls initialState firstOrderPlaced = pre @ [DateNow, DateNow, PlaceOrder usdcSolMarket firstOrder]"
    "orderType firstOrder = ''limit''" "selfTradeBehavior firstOrder = ''decrementTake''"
    "clientOrderId firstOrder = dateNow liveEnv (trace initialState @ pre)"
    "expiryTimestamp firstOrder = dateNow liveEnv (trace initialState @ pre @ [DateNow]) div 1000 + 60"
    by auto
  from pre(1) new have "pre = trace quoteCreated" by simp
  with pre have first: "orderType firstOrder = ''limit''"
    "selfTradeBehavior firstOrder = ''decrementTake''"
    "clientOrderId firstOrder = dateNow liveEnv (trace quoteCreated)"
    "expiryTimestamp firstOrder = dateNow liveEnv (trace quoteCreated @ [DateNow]) div 1000 + 60"
    by (simp_all add: initialState_def)
  have retry: "map clientOrderId (ordersPlaced (trace (snd
     (placeLimitOrder liveEnv usdcSolMarket ''buy'' (1 / 100) (1 / 100) firstOrderPlaced)))) =
     [1700000000002, 1700000000006]"
    by (simp add: placeLimitOrder_def getOrCreateAssociatedTokenAccount_def liveEnv_calls
        Let_def recordCall_def firstOrderPlaced_def quoteCreated_def createQuoteAccount_def
        firstOrder_def ordersPlaced_def)
  from new first retry show ?thesis by simp
qed

section \<open>The loader\<close>

lemma findMarkets_state:
  "\<exists>h. snd (findMarkets env st) = st\<lparr>trace := trace st @ filteredScans @ h\<rparr>"
proof -
  from findMarkets_calls [of env st] obtain probes where
    "snd (findMarkets env st) = st\<lparr>trace := trace st @ filteredScans @
       (if sizeYields env (trace st) possibleSizes = [] then [GetProgramAccounts PROGRAM_ID None] else []) @
       map (\<lambda>a. MarketLoad a PROGRAM_ID) probes\<rparr>"
    by blast
  then show ?thesis by (intro exI) simp
qed

lemma loadMarket_resolve:
  "loadMarket env st =
     (case resolveAddress env st of
        (Inl err, st1) \<Rightarrow> (Inl err, st1)
      | (Inr a, st1) \<Rightarrow>
          (case getAccountInfo env (trace st1) a of
             Inl err \<Rightarrow> (Inl err, recordCall (GetAccountInfo a) st1)
           | Inr None \<Rightarrow> (Inl marketAccountNotFound, recordCall (GetAccountInfo a) st1)
           | Inr (Some info) \<Rightarrow>
               (marketLoad env (trace st1 @ [GetAccountInfo a]) a PROGRAM_ID,
                st1\<lparr>trace := trace st1 @ [GetAccountInfo a, MarketLoad a PROGRAM_ID]\<rparr>)))"
  by (simp add: loadMarket_def resolveAddress_def recordCall_def Let_def
        split: option.splits prod.splits sum.splits)

text \<open>
  C9: whenever \<open>loadMarket\<close> has an address to go on with, cached or freshly
  resolved, its next call is \<open>getAccountInfo\<close> on that address. If the account is
  absent it throws the market-account-not-found error and loads nothing. If the account
  exists it calls \<open>Market.load\<close> anew and returns what that call returns at that
  moment; the state holds no market that could be reused.
\<close>

theorem loadMarket_checks_and_reloads:
  assumes "resolveAddress env st = (Inr a, st1)"
  shows "(\<exists>rest. trace (snd (loadMarket env st)) = trace st1 @ GetAccountInfo a # rest) \<and>
         (getAccountInfo env (trace st1) a = Inr None \<longrightarrow>
            loadMarket env st =
              (Inl marketAccountNotFound, st1\<lparr>trace := trace st1 @ [GetAccountInfo a]\<rparr>)) \<and>
         (\<forall>info. getAccountInfo env (trace st1) a = Inr (Some info) \<longrightarrow>
            loadMarket env st =
              (marketLoad env (trace st1 @ [GetAccountInfo a]) a PROGRAM_ID,
               st1\<lparr>trace := trace st1 @ [GetAccountInfo a, MarketLoad a PROGRAM_ID]\<rparr>))"
  using assms
  by (auto simp: loadMarket_resolve recordCall_def split: sum.splits option.splits)

lemma initialState_fields:
  "MARKET_ADDRESS initialState = None" "trace initialState = []" "console initialState = []"
  by (simp_all add: initialState_def)

lemma fourAccounts_findMarkets:
  assumes scan: "\<And>h flt. getProgramAccounts env h PROGRAM_ID flt =
      (if flt = Some 808 then Inr fourAccounts else Inr [])"
    and load: "\<And>h a. marketLoad env h a PROGRAM_ID =
      (case fourMarkets a of Some m \<Rightarrow> Inr m | None \<Rightarrow> Inl (Error ''not a market''))"
  shows "findMarkets env initialState = (Inr ''UsdcSol'', resolved)"
proof -
  have cands: "candidates env initialState =
      (Inr fourAccounts, initialState\<lparr>trace := filteredScans\<rparr>)"
    by (simp add: candidates_def scan possibleSizes_def initialState_def
        recordCall_def fourAccounts_def filteredScans_def)
  have m: "matchesAt env h fourAccounts 2" "\<not> matchesAt env h fourAccounts 0"
    "\<not> matchesAt env h fourAccounts 1" for h
    by (simp_all add: matchesAt_def load fourAccounts_def fourMarkets_def
        isTargetPair_def BASE_MINT_def QUOTE_MINT_def)
  have "\<forall>j<2. \<not> matchesAt env (trace (initialState\<lparr>trace := filteredScans\<rparr>)) fourAccounts j"
    using m(2,3) by (auto simp: less_Suc_eq numeral_2_eq_2)
  from checkAccounts_first_match [OF _ m(1) this]
  have "checkAccounts env fourAccounts 0 (initialState\<lparr>trace := filteredScans\<rparr>) =
      (Inr ''UsdcSol'', resolved)"
    by (simp add: fourAccounts_def probeTrace_def initialState_def resolved_def numeral_3_eq_3)
  then show ?thesis
    by (simp add: findMarkets_candidates cands)
qed

lemma vanishingEnv_fields:
  "getProgramAccounts vanishingEnv h PROGRAM_ID flt = (if flt = Some 808 then Inr fourAccounts else Inr [])"
  "marketLoad vanishingEnv h a PROGRAM_ID =
     (case fourMarkets a of Some m \<Rightarrow> Inr m | None \<Rightarrow> Inl (Error ''not a market''))"
  "getAccountInfo vanishingEnv h a =
     Inr (if length h < 10 then Some \<lparr>infoDataLength = 808\<rparr> else None)"
  by (simp_all add: vanishingEnv_def liveEnv_fields)

text \<open>
  On the vanishing ledger the first call resolves the market, finds its account and loads
  it; the second call reads the cached address, finds the account gone and throws.
\<close>

theorem loadMarket_checks_and_reloads_witness:
  "loadMarket vanishingEnv initialState = (Inr usdcSolMarket, marketLoaded) \<and>
   loadMarket vanishingEnv marketLoaded =
     (Inl marketAccountNotFound,
      marketLoaded\<lparr>trace := trace marketLoaded @ [GetAccountInfo ''UsdcSol'']\<rparr>)"
proof -
  have fresh: "resolveAddress vanishingEnv initialState =
      (Inr ''UsdcSol'', resolved\<lparr>MARKET_ADDRESS := Some ''UsdcSol''\<rparr>)"
    by (simp add: resolveAddress_def initialState_fields
          fourAccounts_findMarkets [of vanishingEnv, OF vanishingEnv_fields(1,2)])
  have cached: "resolveAddress vanishingEnv marketLoaded = (Inr ''UsdcSol'', marketLoaded)"
    by (simp add: resolveAddress_def marketLoaded_def)
  have there: "getAccountInfo vanishingEnv (trace (resolved\<lparr>MARKET_ADDRESS := Some ''UsdcSol''\<rparr>))
      ''UsdcSol'' = Inr (Some \<lparr>infoDataLength = 808\<rparr>)"
    by (simp add: vanishingEnv_fields resolved_def filteredScans_def possibleSizes_def)
  have gone: "getAccountInfo vanishingEnv (trace marketLoaded) ''UsdcSol'' = Inr None"
    by (simp add: vanishingEnv_fields marketLoaded_def resolved_def filteredScans_def
        possibleSizes_def)
  from loadMarket_checks_and_reloads [OF fresh] there
  have first: "loadMarket vanishingEnv initialState = (Inr usdcSolMarket, marketLoaded)"
    by (simp add: vanishingEnv_fields fourMarkets_accounts marketLoaded_def resolved_def)
  from loadMarket_checks_and_reloads [OF cached] gone
  have second: "loadMarket vanishingEnv marketLoaded =
     (Inl marketAccountNotFound,
      marketLoaded\<lparr>trace := trace marketLoaded @ [GetAccountInfo ''UsdcSol'']\<rparr>)"
    by simp
  from first second show ?thesis by simp
qed

lemma resolveAddress_uncached:
  assumes "MARKET_ADDRESS st = None"
  obtains (failed) err h where
      "findMarkets env st = (Inl err, st\<lparr>trace := trace st @ filteredScans @ h\<rparr>)"
      "resolveAddress env st = (Inl err, st\<lparr>trace := trace st @ filteredScans @ h\<rparr>)"
  | (found) a h where
      "findMarkets env st = (Inr a, st\<lparr>trace := trace st @ filteredScans @ h\<rparr>)"
      "resolveAddress env st =
         (Inr a, st\<lparr>trace := trace st @ filteredScans @ h, MARKET_ADDRESS := Some a\<rparr>)"
proof -
  from findMarkets_state [of env st] obtain h where
    h: "snd (findMarkets env st) = st\<lparr>trace := trace st @ filteredScans @ h\<rparr>"
    by blast
  show ?thesis
  proof (cases "fst (findMarkets env st)")
    case (Inl err)
    with h have "findMarkets env st = (Inl err, st\<lparr>trace := trace st @ filteredScans @ h\<rparr>)"
      by (simp add: prod_eq_iff)
    with assms failed show ?thesis by (simp add: resolveAddress_def)
  next
    case (Inr a)
    with h have "findMarkets env st = (Inr a, st\<lparr>trace := trace st @ filteredScans @ h\<rparr>)"
      by (simp add: prod_eq_iff)
    with assms found show ?thesis by (simp add: resolveAddress_def)
  qed
qed

lemma loadMarket_after_resolve:
  assumes "resolveAddress env st = (Inr a, st1)"
  shows "\<exists>rest. snd (loadMarket env st) = st1\<lparr>trace := trace st1 @ GetAccountInfo a # rest\<rparr> \<and>
           scans rest = []"
  using assms
  by (auto simp: loadMarket_resolve recordCall_def scans_def split: sum.splits option.splits)

text \<open>
  C10: with the cache empty, a \<open>findMarkets\<close> that throws makes \<open>loadMarket\<close> throw
  the same error in the same state, the cache is still empty there, and the next
  \<open>loadMarket\<close> starts again with the five size-filtered scans. And whenever
  \<open>loadMarket\<close> leaves an address in a cache that was empty, it is the address that
  \<open>findMarkets\<close> returned.
\<close>

theorem loadMarket_failed_resolution:
  assumes "MARKET_ADDRESS st = None"
  shows "(\<forall>err st1. findMarkets env st = (Inl err, st1) \<longrightarrow>
            loadMarket env st = (Inl err, st1) \<and> MARKET_ADDRESS st1 = None \<and>
            (\<exists>rest. trace (snd (loadMarket env st1)) = trace st1 @ filteredScans @ rest)) \<and>
         (\<forall>a. MARKET_ADDRESS (snd (loadMarket env st)) = Some a \<longrightarrow>
            fst (findMarkets env st) = Inr a)"
proof (intro conjI allI impI)
  fix err st1 assume failed: "findMarkets env st = (Inl err, st1)"
  with assms show "loadMarket env st = (Inl err, st1)"
    by (simp add: loadMarket_resolve resolveAddress_def)
  from findMarkets_state [of env st] failed assms show none: "MARKET_ADDRESS st1 = None"
    by auto
  from none show "\<exists>rest. trace (snd (loadMarket env st1)) = trace st1 @ filteredScans @ rest"
  proof (cases rule: resolveAddress_uncached [where env = env])
    case (failed err' h)
    then show ?thesis by (simp add: loadMarket_resolve)
  next
    case (found a h)
    from loadMarket_after_resolve [OF found(2)] show ?thesis by auto
  qed
next
  fix a assume set: "MARKET_ADDRESS (snd (loadMarket env st)) = Some a"
  from assms show "fst (findMarkets env st) = Inr a"
  proof (cases rule: resolveAddress_uncached [where env = env])
    case (failed err h)
    with set assms show ?thesis by (simp add: loadMarket_resolve)
  next
    case (found a' h)
    from loadMarket_after_resolve [OF found(2)] set have "a' = a" by auto
    with found show ?thesis by simp
  qed
qed

lemma farEnv_findMarkets: "findMarkets farEnv initialState = (Inl marketNotFound, farProbed)"
proof -
  have "\<forall>j<min (length farAccounts) 20.
          \<not> matchesAt farEnv (trace (initialState\<lparr>trace := filteredScans\<rparr>)) farAccounts j"
    by (simp add: farEnv_matches(2))
  from checkAccounts_no_match [OF this]
  have "checkAccounts farEnv farAccounts 0 (initialState\<lparr>trace := filteredScans\<rparr>) =
      (Inl marketNotFound, farProbed)"
    by (simp add: farAccounts_def probeTrace_def initialState_def farProbed_def)
  then show ?thesis
    by (simp add: findMarkets_candidates farEnv_candidates)
qed

text \<open>
  On the twenty-one accounts the resolution fails, the cache stays empty and the next
  call scans again.
\<close>

theorem loadMarket_failed_resolution_witness:
  "loadMarket farEnv initialState = (Inl marketNotFound, farProbed) \<and>
   MARKET_ADDRESS farProbed = None \<and>
   (\<exists>rest. trace (snd (loadMarket farEnv farProbed)) = trace farProbed @ filteredScans @ rest)"
  using loadMarket_failed_resolution [OF initialState_fields(1), of farEnv] farEnv_findMarkets
  by blast

section \<open>The cache is written once\<close>














lemma retryLoop_stop:
  "\<not> i < retries \<Longrightarrow> retryLoop env sd p s retries i st = (Inr (), st)"
  by (subst retryLoop.simps) simp

lemma retryLoop_success:
  "i < retries \<Longrightarrow> attempt env sd p s st = (Inr tx, st1) \<Longrightarrow>
   retryLoop env sd p s retries i st = (Inr (), consoleLine (OrderSent sd tx) st1)"
  by (subst retryLoop.simps) simp

lemma retryLoop_failure:
  "i < retries \<Longrightarrow> attempt env sd p s st = (Inl (Error message), st1) \<Longrightarrow>
   retryLoop env sd p s retries i st =
     retryLoop env sd p s retries (Suc i)
       (if i = retries - 1
        then consoleLine (AllRetriesFailed sd)
               (consoleLine (RetryError sd (i + 1) retries message) st1)
        else consoleLine (RetryError sd (i + 1) retries message) st1)"
  by (subst retryLoop.simps) (simp add: Let_def)


lemma retryLoop_returns: "fst (retryLoop env sd p s retries i st) = Inr ()"
proof (induction "retries - i" arbitrary: i st)
  case 0
  then show ?case by (simp add: retryLoop_stop)
next
  case (Suc d)
  then have lt: "i < retries" by simp
  obtain r st1 where att: "attempt env sd p s st = (r, st1)" by (cases "attempt env sd p s st")
  show ?case
  proof (cases r)
    case (Inr tx)
    with lt att show ?thesis by (simp add: retryLoop_success)
  next
    case (Inl err)
    obtain message where err: "err = Error message" by (cases err)
    from Suc.hyps(2) have "d = retries - Suc i" by simp
    from Suc.hyps(1) [OF this] lt att Inl err show ?thesis
      by (simp add: retryLoop_failure)
  qed
qed


lemma phase_returns:
  "fst (buySol env p s n st) = Inr ()" "fst (sellSol env p s n st) = Inr ()"
  by (simp_all add: buySol_def sellSol_def retryLoop_returns)

lemma runCycles_running: "fst (runCycles env n st) = None"
proof (induction n arbitrary: st)
  case 0
  show ?case by simp
next
  case (Suc n)
  obtain st1 where b: "buySol env (1 / 100) (1 / 100) defaultRetries st = (Inr (), st1)"
    using phase_returns(1) [of env "1 / 100" "1 / 100" defaultRetries st]
    by (cases "buySol env (1 / 100) (1 / 100) defaultRetries st") auto
  obtain st2 where c: "sellSol env 100 (1 / 100) defaultRetries (recordCall (SetTimeout 6000) st1) =
      (Inr (), st2)"
    using phase_returns(2) [of env 100 "1 / 100" defaultRetries "recordCall (SetTimeout 6000) st1"]
    by (cases "sellSol env 100 (1 / 100) defaultRetries (recordCall (SetTimeout 6000) st1)") auto
  from b c Suc show ?case by simp
qed




lemma liveEnv_loadMarket:
  "loadMarket liveEnv initialState = (Inr usdcSolMarket, marketLoaded)"
  by (simp add: loadMarket_resolve resolveAddress_def initialState_fields
        fourAccounts_findMarkets [of liveEnv, OF liveEnv_fields(2,3)]
        liveEnv_fields fourMarkets_accounts)
     (simp add: resolved_def marketLoaded_def)



section \<open>The retry ceiling\<close>

lemma retryLoop_three:
  "retryLoop env sd p s 3 0 (consoleLine (Attempting sd) st) =
     (Inr (), phaseOutcome env sd p s st)"
proof -
  have step: "retryLoop env sd p s 3 i st0 =
      (if failed (attempt env sd p s st0)
       then retryLoop env sd p s 3 (Suc i) (afterAttempt sd (Suc i) 3 (attempt env sd p s st0))
       else (Inr (), afterAttempt sd (Suc i) 3 (attempt env sd p s st0)))"
    if "i < 3" for i st0
  proof (cases "attempt env sd p s st0")
    case (Pair r st1)
    show ?thesis
    proof (cases r)
      case (Inr tx)
      with Pair that show ?thesis
        by (simp add: retryLoop_success failed_def afterAttempt_def)
    next
      case (Inl err)
      obtain message where "err = Error message" by (cases err)
      with Inl Pair that show ?thesis
        by (auto simp: retryLoop_failure failed_def afterAttempt_def)
    qed
  qed
  have stop: "retryLoop env sd p s 3 3 st0 = (Inr (), st0)" for st0
    by (simp add: retryLoop_stop)
  have s0: "retryLoop env sd p s 3 0 st0 =
      (if failed (attempt env sd p s st0)
       then retryLoop env sd p s 3 (Suc 0) (afterAttempt sd 1 3 (attempt env sd p s st0))
       else (Inr (), afterAttempt sd 1 3 (attempt env sd p s st0)))" for st0
    using step [of 0 st0] by simp
  have s1: "retryLoop env sd p s 3 (Suc 0) st0 =
      (if failed (attempt env sd p s st0)
       then retryLoop env sd p s 3 (Suc (Suc 0)) (afterAttempt sd 2 3 (attempt env sd p s st0))
       else (Inr (), afterAttempt sd 2 3 (attempt env sd p s st0)))" for st0
    using step [of "Suc 0" st0] by (simp add: numeral_2_eq_2)
  have s2: "retryLoop env sd p s 3 (Suc (Suc 0)) st0 =
      (if failed (attempt env sd p s st0)
       then retryLoop env sd p s 3 3 (afterAttempt sd 3 3 (attempt env sd p s st0))
       else (Inr (), afterAttempt sd 3 3 (attempt env sd p s st0)))" for st0
    using step [of "Suc (Suc 0)" st0] by (simp add: numeral_3_eq_3)
  show ?thesis
    unfolding phaseOutcome_def firstAttempt_def secondAttempt_def thirdAttempt_def
    by (simp only: s0 s1 s2 stop) simp
qed

text \<open>
  C1: with the ceiling 3 that \<open>startBot\<close> leaves defaulted, \<open>buySol\<close> and \<open>sellSol\<close>
  return normally in the state after the first attempt that succeeds, having made no
  further attempt, or else in the state after the third attempt, having printed the
  all-retries-failed line. Whatever the ceiling, neither throws, so the loop of
  \<open>startBot\<close> is never left through an error: after any number of cycles it is still
  running.
\<close>

theorem phase_retry_ceiling:
  "buySol env p s 3 st = (Inr (), phaseOutcome env ''buy'' p s st) \<and>
   sellSol env p s 3 st = (Inr (), phaseOutcome env ''sell'' p s st) \<and>
   fst (buySol env p s retries st) = Inr () \<and>
   fst (sellSol env p s retries st) = Inr () \<and>
   defaultRetries = 3 \<and>
   fst (runCycles env n st) = None"
  by (simp add: buySol_def sellSol_def retryLoop_three retryLoop_returns defaultRetries_def
        runCycles_running)

lemma downEnv_attempt:
  "MARKET_ADDRESS st = None \<Longrightarrow>
   attempt downEnv sd p s st = (Inl (Error ''rpc down''), st\<lparr>trace := trace st @ scansOnce\<rparr>)"
  by (simp add: attempt_def loadMarket_def findMarkets_def possibleSizes_def downEnv_def
        recordCall_def scansOnce_def filteredScans_def)

lemma flakyEnv_fields:
  "walletPublicKey flakyEnv = ''Wallet''"
  "marketLoad flakyEnv h a PROGRAM_ID =
     (case fourMarkets a of Some m \<Rightarrow> Inr m | None \<Rightarrow> Inl (Error ''not a market''))"
  "getAccountInfo flakyEnv h a =
     Inr (if fourMarkets a \<noteq> None \<or> list_ex (createsAccount a) h
          then Some \<lparr>infoDataLength = 165\<rparr> else None)"
  "getAssociatedTokenAddressSync flakyEnv mint owner' = owner' @ ''/'' @ mint"
  "sendAndConfirmTransaction flakyEnv h tx signers = Inr ''sigCreate''"
  "dateNow flakyEnv h = 1700000000000 + length h"
  "placeOrder flakyEnv h m args =
     (if length h < 20 then Inl (Error ''blockhash expired'') else Inr ''sigOrder'')"
  by (simp_all add: flakyEnv_def liveEnv_fields)

lemmas phase_defs =
  phaseOutcome_def firstAttempt_def secondAttempt_def thirdAttempt_def afterAttempt_def
  failed_def consoleLine_def

text \<open>
  Behind the refusing node the buy phase makes three attempts of six scans each, prints
  three retry lines and the final line, and returns. On the flaky ledger the first attempt
  is rejected, the second succeeds, and there is no third: two orders were handed in.
\<close>

theorem phase_retry_ceiling_witness:
  "buySol downEnv (1 / 100) (1 / 100) 3 initialState =
     (Inr (),
      \<lparr>MARKET_ADDRESS = None,
       trace = scansOnce @ scansOnce @ scansOnce,
       console =
         [Attempting ''buy'',
          RetryError ''buy'' 1 3 ''rpc down'',
          RetryError ''buy'' 2 3 ''rpc down'',
          RetryError ''buy'' 3 3 ''rpc down'',
          AllRetriesFailed ''buy'']\<rparr>) \<and>
   console (snd (buySol flakyEnv (1 / 100) (1 / 100) 3 marketLoaded)) =
     [Attempting ''buy'',
      RetryError ''buy'' 1 3 ''blockhash expired'',
      OrderSent ''buy'' ''sigOrder''] \<and>
   length (ordersPlaced (newCalls marketLoaded
     (snd (buySol flakyEnv (1 / 100) (1 / 100) 3 marketLoaded)))) = 2"
proof -
  have ceiling: "buySol env (1 / 100) (1 / 100) 3 st =
      (Inr (), phaseOutcome env ''buy'' (1 / 100) (1 / 100) st)" for env st
    using phase_retry_ceiling [of env "1 / 100" "1 / 100" st 3 0] by (rule conjunct1)
  have down: "phaseOutcome downEnv ''buy'' (1 / 100) (1 / 100) initialState =
      \<lparr>MARKET_ADDRESS = None,
       trace = scansOnce @ scansOnce @ scansOnce,
       console =
         [Attempting ''buy'',
          RetryError ''buy'' 1 3 ''rpc down'',
          RetryError ''buy'' 2 3 ''rpc down'',
          RetryError ''buy'' 3 3 ''rpc down'',
          AllRetriesFailed ''buy'']\<rparr>"
    by (simp add: phase_defs downEnv_attempt initialState_def)
  have flaky: "phaseOutcome flakyEnv ''buy'' (1 / 100) (1 / 100) marketLoaded =
      afterAttempt ''buy'' 2 3 (secondAttempt flakyEnv ''buy'' (1 / 100) (1 / 100) marketLoaded)"
    "console (afterAttempt ''buy'' 2 3
        (secondAttempt flakyEnv ''buy'' (1 / 100) (1 / 100) marketLoaded)) =
      [Attempting ''buy'',
       RetryError ''buy'' 1 3 ''blockhash expired'',
       OrderSent ''buy'' ''sigOrder'']"
    "length (ordersPlaced (newCalls marketLoaded (afterAttempt ''buy'' 2 3
        (secondAttempt flakyEnv ''buy'' (1 / 100) (1 / 100) marketLoaded)))) = 2"
    by (simp_all add: phase_defs attempt_def loadMarket_def placeLimitOrder_def
        getOrCreateAssociatedTokenAccount_def flakyEnv_fields fourMarkets_def
        marketLoaded_def resolved_def filteredScans_def possibleSizes_def recordCall_def
        Let_def newCalls_def ordersPlaced_def BASE_MINT_def QUOTE_MINT_def)
  from ceiling [of downEnv initialState] ceiling [of flakyEnv marketLoaded] down flaky
  show ?thesis by simp
qed

section \<open>Funding on a market of the reversed orientation\<close>

lemma marketLoaded_trace:
  "trace marketLoaded =
     [GetProgramAccounts PROGRAM_ID (Some 760), GetProgramAccounts PROGRAM_ID (Some 776),
      GetProgramAccounts PROGRAM_ID (Some 808), GetProgramAccounts PROGRAM_ID (Some 824),
      GetProgramAccounts PROGRAM_ID (Some 856),
      MarketLoad ''Junk'' PROGRAM_ID, MarketLoad ''Other'' PROGRAM_ID,
      MarketLoad ''UsdcSol'' PROGRAM_ID, GetAccountInfo ''UsdcSol'',
      MarketLoad ''UsdcSol'' PROGRAM_ID]"
  by (simp add: marketLoaded_def resolved_def filteredScans_def possibleSizes_def)

lemma placeLimitOrder_reversed:
  "placeLimitOrder liveEnv usdcSolMarket ''buy'' (1 / 100) (1 / 100) marketLoaded =
     (Inr ''sigOrder'',
      marketLoaded\<lparr>trace := trace marketLoaded @
        [GetAccountInfo (settlementAccount liveEnv QUOTE_MINT), createQuoteAccount,
         DateNow, DateNow, PlaceOrder usdcSolMarket reversedBuy]\<rparr>)"
  "placeLimitOrder liveEnv usdcSolMarket ''sell'' 100 (1 / 100) marketLoaded =
     (Inr ''sigOrder'',
      marketLoaded\<lparr>trace := trace marketLoaded @
        [GetAccountInfo (settlementAccount liveEnv BASE_MINT), createBaseAccount,
         DateNow, DateNow, PlaceOrder usdcSolMarket reversedSell]\<rparr>)"
  by (simp_all add: placeLimitOrder_def getOrCreateAssociatedTokenAccount_def liveEnv_calls
        Let_def recordCall_def marketLoaded_trace createQuoteAccount_def createBaseAccount_def
        reversedBuy_def reversedSell_def)

text \<open>
  C6: a buy is to be funded by the settlement account of the quote asset of the market
  the order is placed on, a sell by that of its base asset. \<open>findMarkets\<close> accepts a
  market of the reversed orientation, and on such a market the code does the opposite.
  On the four accounts the first attempt of a buy, from the initial state, resolves and
  loads the market at \<open>UsdcSol\<close>, whose base mint is \<open>QUOTE_MINT\<close> and whose quote
  mint is \<open>BASE_MINT\<close>, and hands in an order paid from the account of the market's
  base mint, which is not the account of its quote mint. The first attempt of a sell
  hands in an order paid from the account of the market's quote mint.
\<close>

theorem placeLimitOrder_funding_reversed:
  "attempt liveEnv ''buy'' (1 / 100) (1 / 100) initialState =
     (Inr ''sigOrder'',
      marketLoaded\<lparr>trace := trace marketLoaded @
        [GetAccountInfo (settlementAccount liveEnv QUOTE_MINT), createQuoteAccount,
         DateNow, DateNow, PlaceOrder usdcSolMarket reversedBuy]\<rparr>) \<and>
   payer reversedBuy = settlementAccount liveEnv (baseMint usdcSolMarket) \<and>
   payer reversedBuy \<noteq> settlementAccount liveEnv (quoteMint usdcSolMarket) \<and>
   attempt liveEnv ''sell'' 100 (1 / 100) initialState =
     (Inr ''sigOrder'',
      marketLoaded\<lparr>trace := trace marketLoaded @
        [GetAccountInfo (settlementAccount liveEnv BASE_MINT), createBaseAccount,
         DateNow, DateNow, PlaceOrder usdcSolMarket reversedSell]\<rparr>) \<and>
   payer reversedSell = settlementAccount liveEnv (quoteMint usdcSolMarket) \<and>
   payer reversedSell \<noteq> settlementAccount liveEnv (baseMint usdcSolMarket)"
proof -
  have mints: "baseMint usdcSolMarket = QUOTE_MINT" "quoteMint usdcSolMarket = BASE_MINT"
    by (simp_all add: usdcSolMarket_def)
  have payers: "payer reversedBuy = settlementAccount liveEnv QUOTE_MINT"
    "payer reversedSell = settlementAccount liveEnv BASE_MINT"
    by (simp_all add: reversedBuy_def reversedSell_def)
  have attempts:
    "attempt liveEnv ''buy'' (1 / 100) (1 / 100) initialState =
       placeLimitOrder liveEnv usdcSolMarket ''buy'' (1 / 100) (1 / 100) marketLoaded"
    "attempt liveEnv ''sell'' 100 (1 / 100) initialState =
       placeLimitOrder liveEnv usdcSolMarket ''sell'' 100 (1 / 100) marketLoaded"
    by (simp_all add: attempt_def liveEnv_loadMarket)
  from settlementAccount_distinct
  have distinct: "settlementAccount liveEnv BASE_MINT \<noteq> settlementAccount liveEnv QUOTE_MINT"
    by (rule not_sym)
  show ?thesis
    by (simp only: attempts placeLimitOrder_reversed mints payers)
       (simp add: settlementAccount_distinct distinct)
qed

end
